theory Spec2Isabelle
  imports Complex_Main
begin

section \<open>Python values\<close>

text \<open>
  The agent passes JSON-like Python values around: tool arguments, tool results, the
  fields of the state dataclasses and the snapshot file are all built from \<open>None\<close>,
  booleans, integers, floats, strings, lists and string-keyed dictionaries. Dataclass
  fields are not type-checked at run time, so a field holds a \<open>pyval\<close>.

  A float is a finite value (given by the rational it denotes), NaN or an infinity.
  How \<open>float\<close> converts a string or an integer (parsing, rounding, overflow) is the
  runtime's, and is passed in. A dictionary is an association list in insertion order; lookup takes the first entry
  of a key.
\<close>

datatype pyfloat = Finite rat | NaN | PosInf | NegInf

datatype pyval =
    VNone
  | VBool bool
  | VInt int
  | VFloat pyfloat
  | VStr string
  | VList "pyval list"
  | VDict "(string \<times> pyval) list"

text \<open>
  Exceptions carry their message, the text of \<open>str(e)\<close>. \<open>OtherError\<close> stands for
  any exception class the code does not name. The state tracker only logs messages; the
  dispatcher returns them in its error result.
\<close>

datatype exn =
    AttributeError string
  | TypeError string
  | KeyError string
  | ZeroDivisionError string
  | OverflowError string
  | ValueError string
  | ConnectError string
  | HTTPStatusError string
  | OtherError string

fun exn_str :: "exn \<Rightarrow> string" where
  "exn_str (AttributeError m) = m"
| "exn_str (TypeError m) = m"
| "exn_str (KeyError k) = [CHR 0x27] @ k @ [CHR 0x27]"
| "exn_str (ZeroDivisionError m) = m"
| "exn_str (OverflowError m) = m"
| "exn_str (ValueError m) = m"
| "exn_str (ConnectError m) = m"
| "exn_str (HTTPStatusError m) = m"
| "exn_str (OtherError m) = m"

fun type_name :: "pyval \<Rightarrow> string" where
  "type_name VNone = ''NoneType''"
| "type_name (VBool b) = ''bool''"
| "type_name (VInt i) = ''int''"
| "type_name (VFloat q) = ''float''"
| "type_name (VStr s) = ''str''"
| "type_name (VList xs) = ''list''"
| "type_name (VDict d) = ''dict''"

definition quoted :: "string \<Rightarrow> string" where
  "quoted s = [CHR 0x27] @ s @ [CHR 0x27]"

definition no_attribute :: "pyval \<Rightarrow> string \<Rightarrow> exn" where
  "no_attribute obj a =
     AttributeError (quoted (type_name obj) @ '' object has no attribute '' @ quoted a)"

text \<open>Truth value testing: \<open>if v:\<close>, \<open>a or b\<close>, \<open>bool(v)\<close>.\<close>

fun truthy :: "pyval \<Rightarrow> bool" where
  "truthy VNone = False"
| "truthy (VBool b) = b"
| "truthy (VInt i) = (i \<noteq> 0)"
| "truthy (VFloat f) = (f \<noteq> Finite 0)"
| "truthy (VStr s) = (s \<noteq> [])"
| "truthy (VList xs) = (xs \<noteq> [])"
| "truthy (VDict d) = (d \<noteq> [])"

text \<open>\<open>d.get(k, default)\<close> on a dictionary.\<close>

definition dict_get :: "(string \<times> pyval) list \<Rightarrow> string \<Rightarrow> pyval \<Rightarrow> pyval" where
  "dict_get d k dflt = (case map_of d k of Some v \<Rightarrow> v | None \<Rightarrow> dflt)"

text \<open>
  \<open>obj.get(k, default)\<close> on an arbitrary value: only dictionaries have the method,
  every other JSON-like value raises AttributeError.
\<close>

definition py_get :: "pyval \<Rightarrow> string \<Rightarrow> pyval \<Rightarrow> exn + pyval" where
  "py_get obj k dflt =
     (case obj of VDict d \<Rightarrow> Inr (dict_get d k dflt) | _ \<Rightarrow> Inl (no_attribute obj ''get''))"

text \<open>
  \<open>float(v)\<close>. The conversions of a string and of an integer are the runtime's and
  are passed in as \<open>conv\<close>: \<open>float_of_str\<close> is \<open>None\<close> where \<open>float\<close> raises
  ValueError (and gives \<open>NaN\<close> for \<open>'nan'\<close>), \<open>float_of_int\<close> is \<open>None\<close> where it
  raises OverflowError.
\<close>

record float_runtime =
  float_of_str :: "string \<Rightarrow> pyfloat option"
  float_of_int :: "int \<Rightarrow> pyfloat option"

definition float_type_error :: "pyval \<Rightarrow> exn" where
  "float_type_error v =
     TypeError (''float() argument must be a string or a real number, not ''
                @ quoted (type_name v))"

definition py_float :: "float_runtime \<Rightarrow> pyval \<Rightarrow> exn + pyfloat" where
  "py_float conv v =
     (case v of
        VNone \<Rightarrow> Inl (float_type_error v)
      | VBool b \<Rightarrow> Inr (Finite (if b then 1 else 0))
      | VInt i \<Rightarrow>
          (case float_of_int conv i of
             None \<Rightarrow> Inl (OverflowError ''int too large to convert to float'')
           | Some f \<Rightarrow> Inr f)
      | VFloat f \<Rightarrow> Inr f
      | VStr s \<Rightarrow>
          (case float_of_str conv s of
             None \<Rightarrow> Inl (ValueError (''could not convert string to float: '' @ quoted s))
           | Some f \<Rightarrow> Inr f)
      | VList xs \<Rightarrow> Inl (float_type_error v)
      | VDict d \<Rightarrow> Inl (float_type_error v))"

text \<open>
  A slice \<open>xs[i:]\<close>: a negative start counts from the end and is clamped at the
  beginning of the list; \<open>xs[-0:]\<close> is the whole list.
\<close>

definition py_slice_from :: "int \<Rightarrow> 'a list \<Rightarrow> 'a list" where
  "py_slice_from i xs =
     (if 0 \<le> i then drop (nat i) xs else drop (length xs - nat (- i)) xs)"

text \<open>
  Equality \<open>a == b\<close>: booleans, integers and finite floats compare by numeric
  value, NaN equals nothing (itself included), an infinity only itself; lists compare
  element by element, dictionaries by key.
\<close>

fun py_num :: "pyval \<Rightarrow> rat option" where
  "py_num (VBool b) = Some (if b then 1 else 0)"
| "py_num (VInt i) = Some (of_int i)"
| "py_num (VFloat (Finite q)) = Some q"
| "py_num v = None"

function py_eq :: "pyval \<Rightarrow> pyval \<Rightarrow> bool"
  and py_eq_list :: "pyval list \<Rightarrow> pyval list \<Rightarrow> bool"
  and py_eq_items :: "(string \<times> pyval) list \<Rightarrow> (string \<times> pyval) list \<Rightarrow> bool" where
  "py_eq VNone b = (b = VNone)"
| "py_eq (VBool x) b = (py_num b = Some (if x then 1 else 0))"
| "py_eq (VInt i) b = (py_num b = Some (of_int i))"
| "py_eq (VFloat f) b =
     (case f of
        Finite q \<Rightarrow> py_num b = Some q
      | NaN \<Rightarrow> False
      | PosInf \<Rightarrow> b = VFloat PosInf
      | NegInf \<Rightarrow> b = VFloat NegInf)"
| "py_eq (VStr s) b = (b = VStr s)"
| "py_eq (VList xs) b = (case b of VList ys \<Rightarrow> py_eq_list xs ys | _ \<Rightarrow> False)"
| "py_eq (VDict d) b =
     (case b of VDict e \<Rightarrow> length d = length e \<and> py_eq_items d e | _ \<Rightarrow> False)"
| "py_eq_list [] ys = (ys = [])"
| "py_eq_list (x # xs) ys =
     (case ys of [] \<Rightarrow> False | y # ys' \<Rightarrow> py_eq x y \<and> py_eq_list xs ys')"
| "py_eq_items [] e = True"
| "py_eq_items ((k, v) # d) e =
     ((case map_of e k of None \<Rightarrow> False | Some w \<Rightarrow> py_eq v w) \<and> py_eq_items d e)"
  by pat_completeness auto
termination
  by (relation "measure (\<lambda>x. case x of
        Inl (a, b) \<Rightarrow> 2 * size a
      | Inr (Inl (xs, ys)) \<Rightarrow> 2 * size_list size xs + 1
      | Inr (Inr (d, e)) \<Rightarrow> 2 * size_list (size_prod (\<lambda>_. 0) size) d + 1)") auto

text \<open>Substring test \<open>w in s\<close> on strings.\<close>

fun startswith :: "'a list \<Rightarrow> 'a list \<Rightarrow> bool" where
  "startswith s [] = True"
| "startswith [] (c # w) = False"
| "startswith (x # s) (c # w) = (x = c \<and> startswith s w)"

fun contains :: "'a list \<Rightarrow> 'a list \<Rightarrow> bool" where
  "contains [] w = (w = [])"
| "contains (x # s) w = (startswith (x # s) w \<or> contains s w)"

text \<open>
  Membership \<open>v in c\<close>: a list is searched with \<open>==\<close>; a string accepts only a
  string on the left; a dictionary is searched by key and needs a hashable value;
  \<open>None\<close> and numbers are not containers.
\<close>

definition py_in :: "pyval \<Rightarrow> pyval \<Rightarrow> exn + bool" where
  "py_in v c =
     (case c of
        VList xs \<Rightarrow> Inr (list_ex (\<lambda>x. py_eq x v) xs)
      | VStr s \<Rightarrow>
          (case v of
             VStr w \<Rightarrow> Inr (contains s w)
           | _ \<Rightarrow> Inl (TypeError (quoted ''in <string>''
                         @ '' requires string as left operand, not '' @ type_name v)))
      | VDict d \<Rightarrow>
          (case v of
             VList xs \<Rightarrow> Inl (TypeError (''unhashable type: '' @ quoted ''list''))
           | VDict e \<Rightarrow> Inl (TypeError (''unhashable type: '' @ quoted ''dict''))
           | VStr k \<Rightarrow> Inr (k \<in> set (map fst d))
           | _ \<Rightarrow> Inr False)
      | _ \<Rightarrow> Inl (TypeError (''argument of type '' @ quoted (type_name c)
                       @ '' is not iterable'')))"

text \<open>Decimal rendering of integers, as \<open>str\<close> and f-strings produce it.\<close>

function str_nat :: "nat \<Rightarrow> string" where
  "str_nat n =
     (if n < 10 then [''0123456789'' ! n]
      else str_nat (n div 10) @ [''0123456789'' ! (n mod 10)])"
  by pat_completeness auto
termination
  by (relation "measure id") auto

declare str_nat.simps [simp del]

definition str_int :: "int \<Rightarrow> string" where
  "str_int i = (if i < 0 then CHR ''-'' # str_nat (nat (- i)) else str_nat (nat i))"

text \<open>
  \<open>str(v)\<close> and \<open>f"{v}"\<close>. The text of a float, a list or a dictionary is produced
  by the runtime and is passed in as \<open>other\<close>.
\<close>

fun py_str :: "(pyval \<Rightarrow> string) \<Rightarrow> pyval \<Rightarrow> string" where
  "py_str other VNone = ''None''"
| "py_str other (VBool b) = (if b then ''True'' else ''False'')"
| "py_str other (VInt i) = str_int i"
| "py_str other (VStr s) = s"
| "py_str other v = other v"

section \<open>State tracker\<close>

subsection \<open>Dataclasses\<close>

record EnvironmentState =
  temperature :: pyval
  music_playing :: pyval
  current_track :: pyval
  windows_left :: pyval
  windows_right :: pyval
  seat_position :: pyval
  location :: pyval
  latitude :: pyval
  longitude :: pyval
  speed :: pyval
  weather_condition :: pyval
  weather_temperature :: pyval
  time_of_day :: pyval

definition EnvironmentState_default :: EnvironmentState where
  "EnvironmentState_default =
     \<lparr> temperature = VFloat (Finite 22),
       music_playing = VBool False,
       current_track = VNone,
       windows_left = VStr ''closed'',
       windows_right = VStr ''closed'',
       seat_position = VStr ''normal'',
       location = VStr ''Yalova, Turkey'',
       latitude = VFloat (Finite (406553 / 10000)),
       longitude = VFloat (Finite (292769 / 10000)),
       speed = VFloat (Finite 0),
       weather_condition = VStr ''unknown'',
       weather_temperature = VFloat (Finite 18),
       time_of_day = VStr ''day'' \<rparr>"

text \<open>The values the comment on \<open>windows_left\<close> enumerates.\<close>

definition window_value :: "pyval \<Rightarrow> bool" where
  "window_value v \<longleftrightarrow> v = VStr ''open'' \<or> v = VStr ''closed'' \<or> v = VStr ''partial''"

subsection \<open>Applying a tool result\<close>

text \<open>
  \<open>args.get(k1) or result.get(k2)\<close>: the second lookup is only evaluated when the
  first value is falsy.
\<close>

definition get_or_get :: "pyval \<Rightarrow> string \<Rightarrow> pyval \<Rightarrow> string \<Rightarrow> exn + pyval" where
  "get_or_get args k1 result k2 =
     (case py_get args k1 VNone of
        Inl e \<Rightarrow> Inl e
      | Inr a \<Rightarrow> if truthy a then Inr a else py_get result k2 VNone)"

text \<open>
  \<open>_update_state_from_tool\<close>. The environment is mutated in place in the source; the
  model returns the new environment together with \<open>state_updated\<close>. An exception inside
  the \<open>try\<close> is logged and the function returns \<open>state_updated\<close> as it stands; in
  every branch the statements that can raise come before the first assignment, so the
  handler returns the environment it was given and \<open>False\<close>.
\<close>

definition update_state_from_tool ::
  "float_runtime \<Rightarrow> EnvironmentState \<Rightarrow> pyval \<Rightarrow> pyval \<Rightarrow> pyval
     \<Rightarrow> EnvironmentState \<times> bool" where
  "update_state_from_tool conv env tool_name args result =
     (if tool_name = VStr ''set_temperature'' then
        (case get_or_get args ''temperature'' result ''current_temperature'' of
           Inl e \<Rightarrow> (env, False)
         | Inr new_temp \<Rightarrow>
             if truthy new_temp then
               (case py_float conv new_temp of
                  Inl e \<Rightarrow> (env, False)
                | Inr t \<Rightarrow> (env\<lparr>temperature := VFloat t\<rparr>, True))
             else (env, False))
      else if tool_name = VStr ''set_music'' \<or> tool_name = VStr ''play_spotify'' then
        (case get_or_get args ''track'' result ''track'' of
           Inl e \<Rightarrow> (env, False)
         | Inr track \<Rightarrow>
             if truthy track then
               (env\<lparr>current_track := track, music_playing := VBool True\<rparr>, True)
             else (env, False))
      else if tool_name = VStr ''open_window'' then
        (case py_get args ''side'' (VStr ''both'') of
           Inl e \<Rightarrow> (env, False)
         | Inr side \<Rightarrow>
             (case py_get args ''action'' (VStr ''open'') of
                Inl e \<Rightarrow> (env, False)
              | Inr action \<Rightarrow>
                  let env1 = (if side = VStr ''left'' \<or> side = VStr ''both''
                              then env\<lparr>windows_left := action\<rparr> else env);
                      env2 = (if side = VStr ''right'' \<or> side = VStr ''both''
                              then env1\<lparr>windows_right := action\<rparr> else env1)
                  in (env2, True)))
      else if tool_name = VStr ''adjust_seat'' then
        (case py_get args ''position'' VNone of
           Inl e \<Rightarrow> (env, False)
         | Inr position \<Rightarrow>
             if truthy position then (env\<lparr>seat_position := position\<rparr>, True)
             else (env, False))
      else if tool_name = VStr ''get_weather'' then
        (case result of
           VDict r \<Rightarrow>
             let env1 = (if truthy (dict_get r ''temperature'' VNone)
                         then env\<lparr>weather_temperature := dict_get r ''temperature'' VNone\<rparr>
                         else env);
                 env2 = (if truthy (dict_get r ''condition'' VNone)
                         then env1\<lparr>weather_condition := dict_get r ''condition'' VNone\<rparr>
                         else env1)
             in (env2, True)
         | _ \<Rightarrow> (env, False))
      else if tool_name = VStr ''get_location'' then
        (case result of
           VDict r \<Rightarrow>
             let env1 = (if truthy (dict_get r ''latitude'' VNone)
                         then env\<lparr>latitude := dict_get r ''latitude'' VNone\<rparr> else env);
                 env2 = (if truthy (dict_get r ''longitude'' VNone)
                         then env1\<lparr>longitude := dict_get r ''longitude'' VNone\<rparr> else env1);
                 env3 = (if truthy (dict_get r ''location'' VNone)
                         then env2\<lparr>location := dict_get r ''location'' VNone\<rparr> else env2)
             in (env3, True)
         | _ \<Rightarrow> (env, False))
      else (env, False))"

subsection \<open>Preferences, construction from keyword arguments\<close>

record UserPreferences =
  preferred_temperature :: pyval
  preferred_music_genre :: pyval
  preferred_artists :: pyval
  language :: pyval
  tts_enabled :: pyval
  voice_rate :: pyval

text \<open>\<open>to_dict\<close> and \<open>asdict\<close>: one entry per field, in declaration order.\<close>

definition to_dict :: "EnvironmentState \<Rightarrow> pyval" where
  "to_dict env =
     VDict [(''temperature'', temperature env),
            (''music_playing'', music_playing env),
            (''current_track'', current_track env),
            (''windows_left'', windows_left env),
            (''windows_right'', windows_right env),
            (''seat_position'', seat_position env),
            (''location'', location env),
            (''latitude'', latitude env),
            (''longitude'', longitude env),
            (''speed'', speed env),
            (''weather_condition'', weather_condition env),
            (''weather_temperature'', weather_temperature env),
            (''time_of_day'', time_of_day env)]"

definition asdict :: "UserPreferences \<Rightarrow> pyval" where
  "asdict prefs =
     VDict [(''preferred_temperature'', preferred_temperature prefs),
            (''preferred_music_genre'', preferred_music_genre prefs),
            (''preferred_artists'', preferred_artists prefs),
            (''language'', language prefs),
            (''tts_enabled'', tts_enabled prefs),
            (''voice_rate'', voice_rate prefs)]"

definition EnvironmentState_fields :: "string list" where
  "EnvironmentState_fields =
     [''temperature'', ''music_playing'', ''current_track'', ''windows_left'',
      ''windows_right'', ''seat_position'', ''location'', ''latitude'', ''longitude'',
      ''speed'', ''weather_condition'', ''weather_temperature'', ''time_of_day'']"

definition UserPreferences_fields :: "string list" where
  "UserPreferences_fields =
     [''preferred_temperature'', ''preferred_music_genre'', ''preferred_artists'',
      ''language'', ''tts_enabled'', ''voice_rate'']"

text \<open>
  \<open>EnvironmentState(**env_data)\<close>: the argument must be a mapping, a key that is not
  a field raises TypeError, a missing key takes the field's default.
\<close>

definition EnvironmentState_init :: "pyval \<Rightarrow> exn + EnvironmentState" where
  "EnvironmentState_init env_data =
     (case env_data of
        VDict e \<Rightarrow>
          if list_all (\<lambda>k. k \<in> set EnvironmentState_fields) (map fst e) then
            Inr \<lparr> temperature = dict_get e ''temperature'' (VFloat (Finite 22)),
                  music_playing = dict_get e ''music_playing'' (VBool False),
                  current_track = dict_get e ''current_track'' VNone,
                  windows_left = dict_get e ''windows_left'' (VStr ''closed''),
                  windows_right = dict_get e ''windows_right'' (VStr ''closed''),
                  seat_position = dict_get e ''seat_position'' (VStr ''normal''),
                  location = dict_get e ''location'' (VStr ''Yalova, Turkey''),
                  latitude = dict_get e ''latitude'' (VFloat (Finite (406553 / 10000))),
                  longitude = dict_get e ''longitude'' (VFloat (Finite (292769 / 10000))),
                  speed = dict_get e ''speed'' (VFloat (Finite 0)),
                  weather_condition = dict_get e ''weather_condition'' (VStr ''unknown''),
                  weather_temperature = dict_get e ''weather_temperature'' (VFloat (Finite 18)),
                  time_of_day = dict_get e ''time_of_day'' (VStr ''day'') \<rparr>
          else Inl (TypeError ''EnvironmentState.__init__() got an unexpected keyword argument'')
      | _ \<Rightarrow> Inl (TypeError ''argument after ** must be a mapping''))"

text \<open>
  \<open>UserPreferences(**pref_data)\<close>, followed by \<open>__post_init__\<close>, which replaces a
  \<open>None\<close> list of artists by the empty list.
\<close>

definition post_init :: "UserPreferences \<Rightarrow> UserPreferences" where
  "post_init prefs =
     (if preferred_artists prefs = VNone then prefs\<lparr>preferred_artists := VList []\<rparr>
      else prefs)"

definition UserPreferences_init :: "pyval \<Rightarrow> exn + UserPreferences" where
  "UserPreferences_init pref_data =
     (case pref_data of
        VDict e \<Rightarrow>
          if list_all (\<lambda>k. k \<in> set UserPreferences_fields) (map fst e) then
            Inr (post_init
              \<lparr> preferred_temperature = dict_get e ''preferred_temperature'' (VFloat (Finite 22)),
                preferred_music_genre = dict_get e ''preferred_music_genre'' VNone,
                preferred_artists = dict_get e ''preferred_artists'' VNone,
                language = dict_get e ''language'' (VStr ''en''),
                tts_enabled = dict_get e ''tts_enabled'' (VBool True),
                voice_rate = dict_get e ''voice_rate'' (VInt 200) \<rparr>)
          else Inl (TypeError ''UserPreferences.__init__() got an unexpected keyword argument'')
      | _ \<Rightarrow> Inl (TypeError ''argument after ** must be a mapping''))"

definition UserPreferences_default :: UserPreferences where
  "UserPreferences_default =
     post_init
       \<lparr> preferred_temperature = VFloat (Finite 22),
         preferred_music_genre = VNone,
         preferred_artists = VNone,
         language = VStr ''en'',
         tts_enabled = VBool True,
         voice_rate = VInt 200 \<rparr>"

subsection \<open>The tracker and its snapshot file\<close>

text \<open>
  The snapshot file is part of the modelled state: it is missing, or holds text that
  is not a JSON document (a truncated dump, say), or holds a JSON document, given by the
  value that \<open>json.load\<close> returns for it.
\<close>

datatype snapshot_file = Missing | Corrupt | Json pyval

record StateTracker =
  environment_state :: EnvironmentState
  user_preferences :: UserPreferences
  context_history :: pyval
  max_history_size :: int
  state_file :: snapshot_file

text \<open>
  \<open>_save_state\<close>. The dictionary \<open>state_data\<close> is built before the file is opened;
  the slice of the history raises when the history is neither a list nor a string, and
  the file is then left as it was. What opening the file and \<open>json.dump\<close> leave in it
  is the runtime's and is passed in as \<open>write\<close>, a function of the file as it was and
  of the document: the document when all goes well, text that is not JSON when the dump
  raises on the way (a string that cannot be encoded), the old file when it cannot be
  opened. Every exception is logged and swallowed.
\<close>

definition state_data :: "string \<Rightarrow> StateTracker \<Rightarrow> exn + pyval" where
  "state_data saved_at st =
     (case (case context_history st of
              VList h \<Rightarrow> Inr (VList (py_slice_from (- 50) h))
            | VStr s \<Rightarrow> Inr (VStr (py_slice_from (- 50) s))
            | VDict d \<Rightarrow> Inl (TypeError (''unhashable type: '' @ quoted ''slice''))
            | v \<Rightarrow> Inl (TypeError (quoted (type_name v) @ '' object is not subscriptable''))) of
        Inl e \<Rightarrow> Inl e
      | Inr recent \<Rightarrow>
          Inr (VDict [(''environment'', to_dict (environment_state st)),
                      (''preferences'', asdict (user_preferences st)),
                      (''context_history'', recent),
                      (''saved_at'', VStr saved_at)]))"

definition save_state ::
  "(snapshot_file \<Rightarrow> pyval \<Rightarrow> snapshot_file) \<Rightarrow> string \<Rightarrow> StateTracker \<Rightarrow> StateTracker" where
  "save_state write saved_at st =
     (case state_data saved_at st of
        Inl e \<Rightarrow> st
      | Inr doc \<Rightarrow> st\<lparr>state_file := write (state_file st) doc\<rparr>)"

text \<open>
  The save goes through: the document is built, and after the write the file holds a
  JSON document that reads back as the document written.
\<close>

definition save_succeeds ::
  "(snapshot_file \<Rightarrow> pyval \<Rightarrow> snapshot_file) \<Rightarrow> string \<Rightarrow> StateTracker \<Rightarrow> bool" where
  "save_succeeds write saved_at st =
     (case state_data saved_at st of
        Inl e \<Rightarrow> False
      | Inr doc \<Rightarrow> write (state_file st) doc = Json doc)"

text \<open>
  \<open>_load_state\<close> and \<open>_load_state_sync\<close> (the two bodies are the same). Each of
  the three sections is loaded in turn; an exception ends the load and keeps what was
  assigned before it. A document that is not a dictionary changes nothing: either the
  membership test raises, or the subscript with a string does, or no key is found.
\<close>

definition load_state :: "StateTracker \<Rightarrow> StateTracker" where
  "load_state st =
     (case state_file st of
        Json (VDict d) \<Rightarrow>
          (case (case map_of d ''environment'' of
                   None \<Rightarrow> Inr st
                 | Some env_data \<Rightarrow>
                     (case EnvironmentState_init env_data of
                        Inl e \<Rightarrow> Inl e
                      | Inr env \<Rightarrow> Inr (st\<lparr>environment_state := env\<rparr>))) of
             Inl e \<Rightarrow> st
           | Inr st1 \<Rightarrow>
               (case (case map_of d ''preferences'' of
                        None \<Rightarrow> Inr st1
                      | Some pref_data \<Rightarrow>
                          (case UserPreferences_init pref_data of
                             Inl e \<Rightarrow> Inl e
                           | Inr prefs \<Rightarrow> Inr (st1\<lparr>user_preferences := prefs\<rparr>))) of
                  Inl e \<Rightarrow> st1
                | Inr st2 \<Rightarrow>
                    (case map_of d ''context_history'' of
                       None \<Rightarrow> st2
                     | Some h \<Rightarrow> st2\<lparr>context_history := h\<rparr>)))
      | _ \<Rightarrow> st)"

text \<open>\<open>StateTracker.__init__\<close>: defaults, then the snapshot file if there is one.\<close>

definition StateTracker_init :: "snapshot_file \<Rightarrow> StateTracker" where
  "StateTracker_init file =
     load_state
       \<lparr> environment_state = EnvironmentState_default,
         user_preferences = UserPreferences_default,
         context_history = VList [],
         max_history_size = 100,
         state_file = file \<rparr>"

subsection \<open>Context updates\<close>

text \<open>
  The loop of \<open>update_context\<close> over the tool results. A result that is not a
  dictionary raises at \<open>result.get\<close>; the environment keeps the changes of the
  results before it.
\<close>

fun apply_tool_results ::
  "float_runtime \<Rightarrow> EnvironmentState \<Rightarrow> bool \<Rightarrow> pyval list
     \<Rightarrow> EnvironmentState \<times> (exn + bool)" where
  "apply_tool_results conv env state_updated [] = (env, Inr state_updated)"
| "apply_tool_results conv env state_updated (result # rest) =
     (case result of
        VDict r \<Rightarrow>
          if truthy (dict_get r ''success'' VNone) then
            (let tool_name = dict_get r ''tool'' VNone;
                 args = dict_get r ''arguments'' (VDict []);
                 (env', u) = update_state_from_tool conv env tool_name args
                               (dict_get r ''result'' (VDict []))
             in apply_tool_results conv env' (state_updated \<or> u) rest)
          else apply_tool_results conv env state_updated rest
      | _ \<Rightarrow> (env, Inl (no_attribute result ''get'')))"

text \<open>
  \<open>update_context\<close>. \<open>now\<close> is the time stamp of the history entry and
  \<open>saved_at\<close> the one of the snapshot. An exception anywhere returns \<open>False\<close>;
  the environment, mutated in place, keeps what the loop did.
\<close>

definition update_context ::
  "float_runtime \<Rightarrow> (snapshot_file \<Rightarrow> pyval \<Rightarrow> snapshot_file) \<Rightarrow> string \<Rightarrow> string
     \<Rightarrow> StateTracker \<Rightarrow> string \<Rightarrow> string \<Rightarrow> pyval list \<Rightarrow> StateTracker \<times> bool" where
  "update_context conv write now saved_at st user_input agent_response tool_results =
     (case apply_tool_results conv (environment_state st) False tool_results of
        (env, Inl e) \<Rightarrow> (st\<lparr>environment_state := env\<rparr>, False)
      | (env, Inr state_updated) \<Rightarrow>
          (let context_entry = VDict
                 [(''timestamp'', VStr now),
                  (''user_input'', VStr user_input),
                  (''agent_response'', VStr agent_response),
                  (''tool_results'', VList tool_results),
                  (''state_snapshot'', to_dict env)]
           in case context_history st of
                VList h \<Rightarrow>
                  (let h1 = h @ [context_entry];
                       h2 = (if int (length h1) > max_history_size st
                             then py_slice_from (- max_history_size st) h1 else h1);
                       st1 = st\<lparr>environment_state := env, context_history := VList h2\<rparr>;
                       st2 = (if state_updated then save_state write saved_at st1 else st1)
                   in (st2, state_updated))
              | _ \<Rightarrow> (st\<lparr>environment_state := env\<rparr>, False)))"

subsection \<open>Preferences\<close>

text \<open>
  \<open>remember_preference\<close>. A known key is stored in the preferences; any other key is
  appended to the context history as a tagged entry. The snapshot is saved and
  \<open>True\<close> returned unless a statement raised.
\<close>

definition remember_preference ::
  "float_runtime \<Rightarrow> (pyval \<Rightarrow> string) \<Rightarrow> (snapshot_file \<Rightarrow> pyval \<Rightarrow> snapshot_file) \<Rightarrow> string
     \<Rightarrow> string \<Rightarrow> StateTracker \<Rightarrow> string \<Rightarrow> pyval \<Rightarrow> StateTracker \<times> bool" where
  "remember_preference conv other write now saved_at st key val =
     (let prefs = user_preferences st;
          stored = (\<lambda>st'. (save_state write saved_at st', True))
      in if key = ''preferred_temperature'' then
           (case py_float conv val of
              Inl e \<Rightarrow> (st, False)
            | Inr t \<Rightarrow> stored (st\<lparr>user_preferences := prefs\<lparr>preferred_temperature := VFloat t\<rparr>\<rparr>))
         else if key = ''preferred_music_genre'' then
           stored (st\<lparr>user_preferences :=
                       prefs\<lparr>preferred_music_genre := VStr (py_str other val)\<rparr>\<rparr>)
         else if key = ''preferred_artist'' then
           (case py_in val (preferred_artists prefs) of
              Inl e \<Rightarrow> (st, False)
            | Inr True \<Rightarrow> stored st
            | Inr False \<Rightarrow>
                (case preferred_artists prefs of
                   VList artists \<Rightarrow>
                     stored (st\<lparr>user_preferences :=
                       prefs\<lparr>preferred_artists := VList (artists @ [VStr (py_str other val)])\<rparr>\<rparr>)
                 | _ \<Rightarrow> (st, False)))
         else if key = ''language'' then
           stored (st\<lparr>user_preferences := prefs\<lparr>language := VStr (py_str other val)\<rparr>\<rparr>)
         else if key = ''tts_enabled'' then
           stored (st\<lparr>user_preferences := prefs\<lparr>tts_enabled := VBool (truthy val)\<rparr>\<rparr>)
         else
           (case context_history st of
              VList h \<Rightarrow>
                stored (st\<lparr>context_history := VList (h @ [VDict
                  [(''timestamp'', VStr now),
                   (''type'', VStr ''preference''),
                   (''key'', VStr key),
                   (''value'', val)]])\<rparr>)
            | _ \<Rightarrow> (st, False)))"

text \<open>\<open>reset_context\<close>: defaults, an empty history, and a save.\<close>

definition reset_context ::
  "(snapshot_file \<Rightarrow> pyval \<Rightarrow> snapshot_file) \<Rightarrow> string \<Rightarrow> StateTracker \<Rightarrow> StateTracker" where
  "reset_context write saved_at st =
     save_state write saved_at
       (st\<lparr>environment_state := EnvironmentState_default,
           user_preferences := UserPreferences_default,
           context_history := VList []\<rparr>)"

subsection \<open>Statistics\<close>

text \<open>
  \<open>len(v)\<close>, and the entry \<open>context_history_size\<close> of
  \<open>get_state_statistics\<close>.
\<close>

definition py_len :: "pyval \<Rightarrow> exn + nat" where
  "py_len v =
     (case v of
        VStr s \<Rightarrow> Inr (length s)
      | VList xs \<Rightarrow> Inr (length xs)
      | VDict d \<Rightarrow> Inr (length d)
      | _ \<Rightarrow> Inl (TypeError (''object of type '' @ quoted (type_name v) @ '' has no len()'')))"

definition context_history_size :: "StateTracker \<Rightarrow> exn + nat" where
  "context_history_size st = py_len (context_history st)"


subsection \<open>Equality of the dataclasses\<close>

text \<open>
  The \<open>__eq__\<close> that \<open>@dataclass\<close> generates compares the fields in order with
  \<open>==\<close>.
\<close>

definition EnvironmentState_eq :: "EnvironmentState \<Rightarrow> EnvironmentState \<Rightarrow> bool" where
  "EnvironmentState_eq a b =
     py_eq_list
       [temperature a, music_playing a, current_track a, windows_left a, windows_right a,
        seat_position a, location a, latitude a, longitude a, speed a, weather_condition a,
        weather_temperature a, time_of_day a]
       [temperature b, music_playing b, current_track b, windows_left b, windows_right b,
        seat_position b, location b, latitude b, longitude b, speed b, weather_condition b,
        weather_temperature b, time_of_day b]"

definition UserPreferences_eq :: "UserPreferences \<Rightarrow> UserPreferences \<Rightarrow> bool" where
  "UserPreferences_eq a b =
     py_eq_list
       [preferred_temperature a, preferred_music_genre a, preferred_artists a, language a,
        tts_enabled a, voice_rate a]
       [preferred_temperature b, preferred_music_genre b, preferred_artists b, language b,
        tts_enabled b, voice_rate b]"

text \<open>
  A value without NaN. (The keys of a dictionary are distinct, as they are in every
  Python dictionary.)
\<close>

fun nan_free :: "pyval \<Rightarrow> bool" where
  "nan_free (VFloat f) = (f \<noteq> NaN)"
| "nan_free (VList xs) = (\<forall>x \<in> set xs. nan_free x)"
| "nan_free (VDict d) = (distinct (map fst d) \<and> (\<forall>(k, v) \<in> set d. nan_free v))"
| "nan_free v = True"

subsection \<open>Reachable trackers\<close>

text \<open>
  The trackers a session can reach: a tracker constructed on any snapshot file or on
  none, then any sequence of context updates, preference stores, resets, reloads and
  changes of the history cap, with any behaviour of the runtime.
\<close>

inductive reachable :: "StateTracker \<Rightarrow> bool" where
  init: "reachable (StateTracker_init snapshot)"
| update: "reachable st \<Longrightarrow>
     reachable (fst (update_context conv write now saved_at st user_input agent_response
                       tool_results))"
| remember: "reachable st \<Longrightarrow>
     reachable (fst (remember_preference conv other write now saved_at st key val))"
| reset: "reachable st \<Longrightarrow> reachable (reset_context write saved_at st)"
| reload: "reachable st \<Longrightarrow> reachable (load_state st)"
| resize: "reachable st \<Longrightarrow> reachable (st\<lparr>max_history_size := n\<rparr>)"

text \<open>A fact that holds of all of them: the list of artists is never \<open>None\<close>.\<close>

definition tracker_inv :: "StateTracker \<Rightarrow> bool" where
  "tracker_inv st \<longleftrightarrow> preferred_artists (user_preferences st) \<noteq> VNone"


section \<open>Tool dispatcher\<close>

subsection \<open>Configuration\<close>

text \<open>
  The environment variables the dispatcher reads, after conversion: a host and a port
  for each of the four servers, and \<open>RETRY_ATTEMPTS\<close>.
\<close>

record settings =
  sim_actions_host :: string
  sim_actions_port :: int
  sim_session_host :: string
  sim_session_port :: int
  conversation_host :: string
  conversation_port :: int
  external_host :: string
  external_port :: int
  retry_attempts :: int

definition default_settings :: settings where
  "default_settings =
     \<lparr> sim_actions_host = ''localhost'', sim_actions_port = 8001,
       sim_session_host = ''localhost'', sim_session_port = 8002,
       conversation_host = ''localhost'', conversation_port = 8003,
       external_host = ''localhost'', external_port = 8004,
       retry_attempts = 3 \<rparr>"

record server_config =
  host :: string
  port :: int
  tools :: "string list"

record ToolDispatcher =
  mcp_servers :: "(string \<times> server_config) list"
  tool_server_map :: "string \<rightharpoonup> string"

text \<open>
  \<open>ToolDispatcher.__init__\<close>: the server table, and the tool-to-server map filled
  by the two nested loops over it.
\<close>

definition ToolDispatcher_init :: "settings \<Rightarrow> ToolDispatcher" where
  "ToolDispatcher_init env =
     (let servers =
        [(''sim_actions'',
            \<lparr> host = sim_actions_host env, port = sim_actions_port env,
              tools = [''set_temperature'', ''set_music'', ''open_window'', ''adjust_seat''] \<rparr>),
         (''sim_session'',
            \<lparr> host = sim_session_host env, port = sim_session_port env,
              tools = [''start_simulation'', ''pause_simulation'', ''reset_simulation'',
                       ''log_event''] \<rparr>),
         (''conversation'',
            \<lparr> host = conversation_host env, port = conversation_port env,
              tools = [''talk'', ''remember'', ''ask_confirm'', ''summarize''] \<rparr>),
         (''external'',
            \<lparr> host = external_host env, port = external_port env,
              tools = [''get_weather'', ''get_location'', ''play_spotify'', ''reroute''] \<rparr>)]
      in \<lparr> mcp_servers = servers,
           tool_server_map =
             fold (\<lambda>(server_name, config) m.
                     fold (\<lambda>tool m'. m'(tool \<mapsto> server_name)) (tools config) m)
                  servers Map.empty \<rparr>)"

subsection \<open>The HTTP client and the clock\<close>

text \<open>
  What the dispatcher observes of a response: its status code, what \<open>json()\<close> does
  (the body, or the exception it raises), and the message of the error that
  \<open>raise_for_status\<close> raises. As in httpx, \<open>raise_for_status\<close> raises for every
  status outside 200..299.
\<close>

record response =
  status_code :: int
  json :: "exn + pyval"
  status_error :: string

datatype post_result = Raises exn | Returns response

definition raise_for_status :: "response \<Rightarrow> exn option" where
  "raise_for_status r =
     (if 200 \<le> status_code r \<and> status_code r \<le> 299 then None
      else Some (HTTPStatusError (status_error r)))"

text \<open>The readings of the clock during one call, already formatted.\<close>

record clock =
  utc_iso :: string
  utc_stamp :: string
  sim_stamp :: string
  event_stamp :: string

subsection \<open>Mock responses\<close>

definition subscript :: "(string \<times> pyval) list \<Rightarrow> string \<Rightarrow> exn + pyval" where
  "subscript d k = (case map_of d k of None \<Rightarrow> Inl (KeyError k) | Some v \<Rightarrow> Inr v)"

text \<open>The table \<open>mock_responses\<close>, for parameters that are a dictionary.\<close>

definition mock_responses ::
  "(pyval \<Rightarrow> string) \<Rightarrow> clock \<Rightarrow> (string \<times> pyval) list \<Rightarrow> (string \<times> pyval) list" where
  "mock_responses other clk p =
     [(''set_temperature'', VDict
         [(''success'', VBool True),
          (''message'', VStr (''Temperature set to ''
              @ py_str other (dict_get p ''temperature'' (VInt 22)) @ [CHR 0xB0] @ ''C'')),
          (''current_temperature'', dict_get p ''temperature'' (VInt 22)),
          (''mock'', VBool True)]),
      (''set_music'', VDict
         [(''success'', VBool True),
          (''message'', VStr (''Now playing: ''
              @ py_str other (dict_get p ''track'' (VStr ''Unknown track'')))),
          (''current_track'', dict_get p ''track'' (VStr ''Unknown track'')),
          (''mock'', VBool True)]),
      (''open_window'', VDict
         [(''success'', VBool True),
          (''message'', VStr (''Window on ''
              @ py_str other (dict_get p ''side'' (VStr ''both'')) @ '' side(s) opened'')),
          (''window_state'', VStr (py_str other (dict_get p ''side'' (VStr ''both''))
              @ ''_open'')),
          (''mock'', VBool True)]),
      (''adjust_seat'', VDict
         [(''success'', VBool True),
          (''message'', VStr (''Seat adjusted to ''
              @ py_str other (dict_get p ''position'' (VStr ''comfortable'')) @ '' position'')),
          (''seat_position'', dict_get p ''position'' (VStr ''comfortable'')),
          (''mock'', VBool True)]),
      (''get_weather'', VDict
         [(''success'', VBool True),
          (''location'', dict_get p ''location'' (VStr ''Yalova, Turkey'')),
          (''temperature'', VInt 18),
          (''condition'', VStr ''Partly cloudy''),
          (''humidity'', VInt 65),
          (''wind_speed'', VInt 12),
          (''mock'', VBool True)]),
      (''get_location'', VDict
         [(''success'', VBool True),
          (''latitude'', VFloat (Finite (406553 / 10000))),
          (''longitude'', VFloat (Finite (292769 / 10000))),
          (''location'', VStr ''Yalova, Turkey''),
          (''address'', VStr ''Rural area near Yalova''),
          (''mock'', VBool True)]),
      (''play_spotify'', VDict
         [(''success'', VBool True),
          (''message'', VStr (''Playing ''
              @ py_str other (dict_get p ''track'' (VStr ''music'')) @ '' on Spotify'')),
          (''track'', dict_get p ''track'' (VStr ''Unknown track'')),
          (''spotify_url'', VStr ''spotify:track:mock''),
          (''mock'', VBool True)]),
      (''reroute'', VDict
         [(''success'', VBool True),
          (''destination'', dict_get p ''destination'' (VStr ''Unknown'')),
          (''estimated_time'', VStr ''15 minutes''),
          (''distance'', VStr ''8.5 km''),
          (''route'', VStr ''Via rural roads''),
          (''mock'', VBool True)]),
      (''start_simulation'', VDict
         [(''success'', VBool True),
          (''message'', VStr ''Simulation started''),
          (''simulation_id'', VStr (''sim_'' @ sim_stamp clk)),
          (''status'', VStr ''running''),
          (''mock'', VBool True)]),
      (''pause_simulation'', VDict
         [(''success'', VBool True),
          (''message'', VStr ''Simulation paused''),
          (''status'', VStr ''paused''),
          (''mock'', VBool True)]),
      (''reset_simulation'', VDict
         [(''success'', VBool True),
          (''message'', VStr ''Simulation reset''),
          (''status'', VStr ''reset''),
          (''mock'', VBool True)]),
      (''log_event'', VDict
         [(''success'', VBool True),
          (''message'', VStr ''Event logged''),
          (''event_id'', VStr (''event_'' @ event_stamp clk)),
          (''mock'', VBool True)]),
      (''talk'', VDict
         [(''success'', VBool True),
          (''message'', VStr ''Message processed''),
          (''response'', VStr ''I understand.''),
          (''mock'', VBool True)]),
      (''remember'', VDict
         [(''success'', VBool True),
          (''message'', VStr ''Preference saved''),
          (''key'', dict_get p ''key'' (VStr ''unknown'')),
          (''value'', dict_get p ''value'' (VStr ''unknown'')),
          (''mock'', VBool True)]),
      (''ask_confirm'', VDict
         [(''success'', VBool True),
          (''message'', VStr ''Confirmation requested''),
          (''prompt'', dict_get p ''prompt'' (VStr ''Please confirm'')),
          (''mock'', VBool True)]),
      (''summarize'', VDict
         [(''success'', VBool True),
          (''message'', VStr ''Context summarized''),
          (''summary'',
             VStr ''Recent activities include conversation and car adjustments.''),
          (''mock'', VBool True)])]"

text \<open>
  \<open>_handle_offline_server\<close>. The whole table is built on every call, so parameters
  that are not a dictionary raise at the first \<open>parameters.get\<close>, whatever the tool.
\<close>

definition handle_offline_server ::
  "(pyval \<Rightarrow> string) \<Rightarrow> clock \<Rightarrow> (string \<times> pyval) list \<Rightarrow> exn + pyval" where
  "handle_offline_server other clk payload =
     (case subscript payload ''tool'' of
        Inl e \<Rightarrow> Inl e
      | Inr tool_name \<Rightarrow>
          (case subscript payload ''parameters'' of
             Inl e \<Rightarrow> Inl e
           | Inr parameters \<Rightarrow>
               (case parameters of
                  VDict p \<Rightarrow>
                    (let unavailable = VDict
                           [(''success'', VBool False),
                            (''error'', VStr (''Mock response not available for ''
                                @ py_str other tool_name)),
                            (''mock'', VBool True)]
                     in case tool_name of
                          VStr t \<Rightarrow>
                            Inr (case map_of (mock_responses other clk p) t of
                                   Some m \<Rightarrow> m | None \<Rightarrow> unavailable)
                        | VList xs \<Rightarrow> Inl (TypeError (''unhashable type: '' @ quoted ''list''))
                        | VDict d \<Rightarrow> Inl (TypeError (''unhashable type: '' @ quoted ''dict''))
                        | _ \<Rightarrow> Inr unavailable)
                | _ \<Rightarrow> Inl (no_attribute parameters ''get''))))"

subsection \<open>Requests with retry\<close>

text \<open>
  One pass through the body of the retry loop of \<open>_make_http_request\<close>: the
  \<open>try\<close> block and its two handlers. \<open>final\<close> says that this is the final attempt.
  The pass ends the function with a value or an exception, or goes on to the next
  attempt. A response whose status is neither 200 nor 404 and for which
  \<open>raise_for_status\<close> returns goes on to the next attempt. An exception raised inside
  the handler of a connection error is not caught by the loop.
\<close>

datatype attempt_result = Done "exn + pyval" | Next

definition on_exception ::
  "(pyval \<Rightarrow> string) \<Rightarrow> clock \<Rightarrow> (string \<times> pyval) list \<Rightarrow> bool \<Rightarrow> exn \<Rightarrow> attempt_result" where
  "on_exception other clk payload final e =
     (case e of
        ConnectError m \<Rightarrow>
          if final then Done (handle_offline_server other clk payload) else Next
      | _ \<Rightarrow> if final then Done (Inl e) else Next)"

definition attempt_request ::
  "(nat \<Rightarrow> string \<Rightarrow> pyval \<Rightarrow> post_result) \<Rightarrow> (pyval \<Rightarrow> string) \<Rightarrow> clock \<Rightarrow> string
     \<Rightarrow> (string \<times> pyval) list \<Rightarrow> nat \<Rightarrow> bool \<Rightarrow> attempt_result" where
  "attempt_request post other clk url payload attempt final =
     (case post attempt url (VDict payload) of
        Raises e \<Rightarrow> on_exception other clk payload final e
      | Returns r \<Rightarrow>
          if status_code r = 200 then
            (case json r of
               Inr body \<Rightarrow> Done (Inr body)
             | Inl e \<Rightarrow> on_exception other clk payload final e)
          else if status_code r = 404 then
            (case handle_offline_server other clk payload of
               Inr m \<Rightarrow> Done (Inr m)
             | Inl e \<Rightarrow> on_exception other clk payload final e)
          else
            (case raise_for_status r of
               Some e \<Rightarrow> on_exception other clk payload final e
             | None \<Rightarrow> Next))"

text \<open>
  The loop \<open>for attempt in range(max_retries)\<close>, by recursion on the number of
  attempts that remain. The second component lists the URLs posted to, in order. When
  the loop runs out the function ends without a \<open>return\<close>: its value is \<open>None\<close>.
\<close>

fun request_loop ::
  "(nat \<Rightarrow> string \<Rightarrow> pyval \<Rightarrow> post_result) \<Rightarrow> (pyval \<Rightarrow> string) \<Rightarrow> clock \<Rightarrow> string
     \<Rightarrow> (string \<times> pyval) list \<Rightarrow> nat \<Rightarrow> nat \<Rightarrow> (exn + pyval) \<times> string list" where
  "request_loop post other clk url payload attempt 0 = (Inr VNone, [])"
| "request_loop post other clk url payload attempt (Suc remaining) =
     (case attempt_request post other clk url payload attempt (remaining = 0) of
        Done r \<Rightarrow> (r, [url])
      | Next \<Rightarrow>
          (let (r, posted) = request_loop post other clk url payload (Suc attempt) remaining
           in (r, url # posted)))"

definition make_http_request ::
  "int \<Rightarrow> (nat \<Rightarrow> string \<Rightarrow> pyval \<Rightarrow> post_result) \<Rightarrow> (pyval \<Rightarrow> string) \<Rightarrow> clock \<Rightarrow> string
     \<Rightarrow> (string \<times> pyval) list \<Rightarrow> (exn + pyval) \<times> string list" where
  "make_http_request max_retries post other clk url payload =
     request_loop post other clk url payload 0 (nat max_retries)"

subsection \<open>Executing a tool\<close>

definition subscript_server :: "(string \<times> server_config) list \<Rightarrow> string \<Rightarrow> exn + server_config" where
  "subscript_server servers k =
     (case map_of servers k of None \<Rightarrow> Inl (KeyError k) | Some c \<Rightarrow> Inr c)"

text \<open>
  \<open>execute_tool\<close>, with the list of URLs it posted to. Every exception becomes the
  error result.
\<close>

definition error_result :: "string \<Rightarrow> pyval \<Rightarrow> exn \<Rightarrow> pyval" where
  "error_result tool_name parameters e =
     VDict [(''success'', VBool False),
            (''error'', VStr (exn_str e)),
            (''tool'', VStr tool_name),
            (''parameters'', parameters)]"

definition tool_url :: "server_config \<Rightarrow> string \<Rightarrow> string" where
  "tool_url server_config tool_name =
     ''http://'' @ host server_config @ '':'' @ str_int (port server_config)
       @ ''/tools/'' @ tool_name"

definition request_payload :: "clock \<Rightarrow> string \<Rightarrow> pyval \<Rightarrow> (string \<times> pyval) list" where
  "request_payload clk tool_name parameters =
     [(''tool'', VStr tool_name),
      (''parameters'', parameters),
      (''timestamp'', VStr (utc_iso clk)),
      (''request_id'', VStr (tool_name @ ''_'' @ utc_stamp clk))]"

definition execute_tool ::
  "ToolDispatcher \<Rightarrow> int \<Rightarrow> (nat \<Rightarrow> string \<Rightarrow> pyval \<Rightarrow> post_result) \<Rightarrow> (pyval \<Rightarrow> string)
     \<Rightarrow> clock \<Rightarrow> string \<Rightarrow> pyval \<Rightarrow> pyval \<times> string list" where
  "execute_tool self max_retries post other clk tool_name parameters =
     (case (case tool_server_map self tool_name of
              None \<Rightarrow> Inl (ValueError (''Tool '' @ quoted tool_name
                                         @ '' not found in any MCP server''))
            | Some server_name \<Rightarrow>
                if server_name = [] then
                  Inl (ValueError (''Tool '' @ quoted tool_name
                                   @ '' not found in any MCP server''))
                else subscript_server (mcp_servers self) server_name) of
        Inl e \<Rightarrow> (error_result tool_name parameters e, [])
      | Inr server_config \<Rightarrow>
          (case make_http_request max_retries post other clk
                  (tool_url server_config tool_name)
                  (request_payload clk tool_name parameters) of
             (Inr response, posted) \<Rightarrow> (response, posted)
           | (Inl e, posted) \<Rightarrow> (error_result tool_name parameters e, posted)))"

section \<open>Intent router\<close>

subsection \<open>Text\<close>

text \<open>
  Text is a string of 8-bit characters, each standing for the code point of the same
  number (the Latin-1 range). \<open>str.lower\<close> maps A..Z and the accented capitals
  0xC0..0xDE (without the multiplication sign 0xD7) to the letter 32 places up, which
  is the same character with bit 5 set.
\<close>

definition is_upper :: "char \<Rightarrow> bool" where
  "is_upper c \<longleftrightarrow>
     (let n = (of_char c :: nat)
      in (65 \<le> n \<and> n \<le> 90) \<or> (192 \<le> n \<and> n \<le> 222 \<and> n \<noteq> 215))"

definition lower_char :: "char \<Rightarrow> char" where
  "lower_char c =
     (if is_upper c
      then (case c of Char b0 b1 b2 b3 b4 b5 b6 b7 \<Rightarrow> Char b0 b1 b2 b3 b4 True b6 b7)
      else c)"

definition lower :: "string \<Rightarrow> string" where
  "lower s = map lower_char s"

text \<open>The classes \<open>\d\<close>, \<open>\s\<close> and \<open>.\<close> of the \<open>re\<close> module on this range.\<close>

datatype char_class = Digit | Whitespace | Dot

definition is_digit :: "char \<Rightarrow> bool" where
  "is_digit c \<longleftrightarrow> (let n = (of_char c :: nat) in 48 \<le> n \<and> n \<le> 57)"

definition is_space :: "char \<Rightarrow> bool" where
  "is_space c \<longleftrightarrow>
     (let n = (of_char c :: nat)
      in (9 \<le> n \<and> n \<le> 13) \<or> (28 \<le> n \<and> n \<le> 32) \<or> n = 133 \<or> n = 160)"

fun in_class :: "char_class \<Rightarrow> char \<Rightarrow> bool" where
  "in_class Digit c = is_digit c"
| "in_class Whitespace c = is_space c"
| "in_class Dot c = (c \<noteq> CHR 0x0A)"

text \<open>\<open>str.strip\<close> and the value of a string of decimal digits.\<close>

definition strip :: "string \<Rightarrow> string" where
  "strip s = rev (dropWhile is_space (rev (dropWhile is_space s)))"

definition digits_value :: "string \<Rightarrow> nat" where
  "digits_value s = foldl (\<lambda>n c. 10 * n + (of_char c - 48)) 0 s"

subsection \<open>Regular expressions\<close>

text \<open>
  The fragment of the \<open>re\<close> syntax that the router's patterns use. Repetition only
  occurs on a single character class. A pattern has at most one capture group.
\<close>

datatype regex =
    Lit string
  | Alt regex regex
  | Seq regex regex
  | Opt regex
  | Star char_class
  | Plus char_class
  | LazyStar char_class
  | Group regex
  | End

fun alts :: "regex list \<Rightarrow> regex" where
  "alts [] = Lit []"
| "alts [r] = r"
| "alts (r # rs) = Alt r (alts rs)"

fun seqs :: "regex list \<Rightarrow> regex" where
  "seqs [] = Lit []"
| "seqs [r] = r"
| "seqs (r # rs) = Seq r (seqs rs)"

text \<open>
  A backtracking matcher: \<open>rx r (s, g)\<close> lists, in the order in which the \<open>re\<close>
  module tries them, the ways in which \<open>r\<close> matches a prefix of \<open>s\<close>; each is the
  rest of the text together with the text of group 1. A greedy repetition tries the
  longest run first, a lazy one the shortest. \<open>$\<close> matches at the end of the text and
  before a newline that ends it.
\<close>

definition run_length :: "char_class \<Rightarrow> string \<Rightarrow> nat" where
  "run_length k s = length (takeWhile (in_class k) s)"

fun rx :: "regex \<Rightarrow> string \<times> string option \<Rightarrow> (string \<times> string option) list" where
  "rx (Lit w) (s, g) = (if startswith s w then [(drop (length w) s, g)] else [])"
| "rx (Alt a b) st = rx a st @ rx b st"
| "rx (Seq a b) st = concat (map (rx b) (rx a st))"
| "rx (Opt a) st = rx a st @ [st]"
| "rx (Star k) (s, g) = map (\<lambda>i. (drop i s, g)) (rev [0..<Suc (run_length k s)])"
| "rx (Plus k) (s, g) = map (\<lambda>i. (drop i s, g)) (rev [1..<Suc (run_length k s)])"
| "rx (LazyStar k) (s, g) = map (\<lambda>i. (drop i s, g)) [0..<Suc (run_length k s)]"
| "rx (Group a) (s, g) =
     map (\<lambda>(t, h). (t, Some (take (length s - length t) s))) (rx a (s, g))"
| "rx End (s, g) = (if s = [] \<or> s = [CHR 0x0A] then [(s, g)] else [])"

text \<open>
  \<open>re.search\<close>: the first match at the leftmost position where there is one.
  \<open>None\<close> is no match, \<open>Some g\<close> a match whose group 1 is \<open>g\<close>.
\<close>

fun re_search :: "regex \<Rightarrow> string \<Rightarrow> string option option" where
  "re_search r [] = (case rx r ([], None) of [] \<Rightarrow> None | (t, g) # _ \<Rightarrow> Some g)"
| "re_search r (x # s) =
     (case rx r (x # s, None) of [] \<Rightarrow> re_search r s | (t, g) # _ \<Rightarrow> Some g)"

subsection \<open>Intents, patterns and tools\<close>

datatype IntentType =
    TEMPERATURE_CONTROL
  | MUSIC_CONTROL
  | WINDOW_CONTROL
  | SEAT_ADJUSTMENT
  | WEATHER_INQUIRY
  | LOCATION_REQUEST
  | NAVIGATION
  | CONVERSATION
  | SIMULATION_CONTROL
  | UNKNOWN

text \<open>
  \<open>intent_patterns\<close>, in the order of the dictionary. Each pattern is the syntax
  tree of the pattern text of the source.
\<close>

definition intent_patterns :: "(IntentType \<times> regex list) list" where
  "intent_patterns =
     [(TEMPERATURE_CONTROL,
        [Group (alts [Lit ''cold'', Lit ''hot'', Lit ''warm'', Lit ''cool'', Lit ''temperature'',
                      Seq (Lit ''degree'') (Opt (Lit ''s'')), Lit ''heat'', Lit ''ac'',
                      Lit ''air conditioning'']),
         seqs [Group (alts [Lit ''turn up'', Lit ''turn down'', Lit ''increase'',
                            Lit ''decrease'', Lit ''adjust'']),
               Star Dot, Lit ''temperature''],
         Group (alts [Lit ''too hot'', Lit ''too cold'', Lit ''freezing'', Lit ''boiling'']),
         Group (alts [Lit ''warmer'', Lit ''cooler'', Lit ''hotter'', Lit ''colder''])]),
      (MUSIC_CONTROL,
        [Group (alts [Lit ''play'', Lit ''stop'', Lit ''pause'', Lit ''music'', Lit ''song'',
                      Lit ''track'', Lit ''album'', Lit ''artist'']),
         seqs [Group (alts [Lit ''turn on'', Lit ''turn off'', Lit ''start'', Lit ''next'',
                            Lit ''previous'']),
               Star Dot, Lit ''music''],
         Group (alts [Lit ''spotify'', Lit ''sound'', Lit ''audio'', Lit ''volume'']),
         seqs [Group (alts [Lit ''listen to'', Lit ''hear'', Lit ''put on'']),
               Star Dot, Lit ''music'']]),
      (WINDOW_CONTROL,
        [Group (alts [Lit ''window'', Lit ''windows'', Lit ''open'', Lit ''close'',
                      Lit ''roll up'', Lit ''roll down'']),
         Group (alts [Lit ''fresh air'', Lit ''ventilation'', Lit ''breeze'']),
         Group (alts [Lit ''stuffy'', Lit ''air flow''])]),
      (SEAT_ADJUSTMENT,
        [Group (alts [Lit ''seat'', Lit ''chair'', Lit ''position'', Lit ''comfortable'',
                      Lit ''adjust'']),
         Group (alts [Lit ''forward'', Lit ''back'', Lit ''up'', Lit ''down'', Lit ''recline'']),
         Group (alts [Lit ''uncomfortable'', Lit ''sore'', Lit ''posture''])]),
      (WEATHER_INQUIRY,
        [Group (alts [Lit ''weather'', Lit ''forecast'', Lit ''rain'', Lit ''sunny'',
                      Lit ''cloudy'', Lit ''temperature outside'']),
         Group (alts [seqs [Lit ''what'', Star Dot, Lit ''like outside''],
                      seqs [Lit ''how'', Star Dot, Lit ''weather'']]),
         Group (alts [Lit ''will it rain'', Lit ''is it sunny'', Lit ''temperature''])]),
      (LOCATION_REQUEST,
        [Group (alts [Lit ''where are we'', Lit ''location'', Lit ''position'', Lit ''gps'']),
         Group (alts [seqs [Lit ''what'', Star Dot, Lit ''place''],
                      seqs [Lit ''which'', Star Dot, Lit ''area''],
                      Lit ''current location''])]),
      (NAVIGATION,
        [Group (alts [Seq (Lit ''direction'') (Opt (Lit ''s'')), Lit ''navigate'', Lit ''route'',
                      Lit ''way to'', Lit ''go to'', Lit ''destination'']),
         Group (alts [Lit ''how to get'', seqs [Lit ''find'', Star Dot, Lit ''way''],
                      Lit ''drive to'']),
         Group (alts [Lit ''reroute'', Lit ''alternative'', Lit ''shortcut''])]),
      (SIMULATION_CONTROL,
        [seqs [Group (alts [Lit ''start'', Lit ''stop'', Lit ''pause'', Lit ''reset'',
                            Lit ''restart'']),
               Star Dot, Lit ''simulation''],
         seqs [Group (alts [Lit ''begin'', Lit ''end'', Lit ''exit'']),
               Star Dot, Lit ''session''],
         seqs [Group (alts [Lit ''save'', Lit ''load'']), Star Dot, Lit ''state'']]),
      (CONVERSATION,
        [Group (alts [Lit ''hello'', Lit ''hi'', Lit ''hey'', Lit ''good morning'',
                      Lit ''good evening'']),
         Group (alts [Lit ''how are you'', Lit ''thanks'', Lit ''thank you'', Lit ''please'']),
         Group (alts [Lit ''tell me'', Lit ''explain'', Lit ''what'', Lit ''why'', Lit ''when'',
                      Lit ''where'', Lit ''how''])])]"

definition intent_tool_mapping :: "(IntentType \<times> string list) list" where
  "intent_tool_mapping =
     [(TEMPERATURE_CONTROL, [''set_temperature'']),
      (MUSIC_CONTROL, [''set_music'', ''play_spotify'']),
      (WINDOW_CONTROL, [''open_window'']),
      (SEAT_ADJUSTMENT, [''adjust_seat'']),
      (WEATHER_INQUIRY, [''get_weather'']),
      (LOCATION_REQUEST, [''get_location'']),
      (NAVIGATION, [''reroute'', ''get_location'']),
      (SIMULATION_CONTROL, [''start_simulation'', ''pause_simulation'', ''reset_simulation'',
                            ''log_event'']),
      (CONVERSATION, [''talk'', ''remember'', ''ask_confirm'', ''summarize'']),
      (UNKNOWN, [''talk''])]"

subsection \<open>Action prediction and parameter extraction\<close>

text \<open>\<open>any(word in text for word in words)\<close>.\<close>

definition any_in :: "string list \<Rightarrow> string \<Rightarrow> bool" where
  "any_in ws s = list_ex (contains s) ws"

definition predict_action :: "string \<Rightarrow> IntentType \<Rightarrow> string" where
  "predict_action user_input intent_type =
     (let user_input_lower = lower user_input
      in if intent_type = TEMPERATURE_CONTROL then
           (if any_in [''cold'', ''cool''] user_input_lower then ''increase_temperature''
            else if any_in [''hot'', ''warm''] user_input_lower then ''decrease_temperature''
            else ''adjust_temperature'')
         else if intent_type = MUSIC_CONTROL then
           (if contains user_input_lower ''play'' then ''play_music''
            else if any_in [''stop'', ''pause''] user_input_lower then ''stop_music''
            else ''control_music'')
         else if intent_type = WINDOW_CONTROL then
           (if contains user_input_lower ''open'' then ''open_window''
            else if contains user_input_lower ''close'' then ''close_window''
            else ''control_window'')
         else if intent_type = WEATHER_INQUIRY then ''get_weather_info''
         else if intent_type = LOCATION_REQUEST then ''get_current_location''
         else if intent_type = NAVIGATION then ''provide_navigation''
         else ''general_conversation'')"

text \<open>The three patterns of the extractor.\<close>

definition temperature_pattern :: regex where
  "temperature_pattern =
     seqs [Group (Plus Digit), Star Whitespace,
           Alt (Seq (Lit ''degree'') (Opt (Lit ''s''))) (Lit [CHR 0xB0])]"

definition play_pattern :: regex where
  "play_pattern =
     seqs [Lit ''play'', Plus Whitespace, Group (LazyStar Dot),
           Alt (seqs [Plus Whitespace, Lit ''by'', Plus Whitespace])
               (Seq (Star Whitespace) End)]"

definition destination_pattern :: regex where
  "destination_pattern =
     seqs [alts [Lit ''to'', Lit ''go to'', Lit ''navigate to'', Lit ''directions to''],
           Plus Whitespace, Group (Plus Dot)]"

text \<open>
  The temperature pattern in words, to compare with the pattern: the text holds a
  digit that is followed, after white space or none, by \<open>degree\<close> or by a degree mark
  (a number followed by \<open>degree(s)\<close> or a degree mark).
\<close>

definition number_before_degree :: "string \<Rightarrow> bool" where
  "number_before_degree s \<longleftrightarrow>
     (\<exists>a d w b. s = a @ d # w @ b \<and> is_digit d \<and> list_all is_space w
        \<and> (startswith b ''degree'' \<or> startswith b [CHR 0xB0]))"


definition group1 :: "string option \<Rightarrow> string" where
  "group1 g = (case g of Some s \<Rightarrow> s | None \<Rightarrow> [])"

definition extract_parameters :: "string \<Rightarrow> IntentType \<Rightarrow> (string \<times> pyval) list" where
  "extract_parameters user_input intent_type =
     (let user_input_lower = lower user_input
      in if intent_type = TEMPERATURE_CONTROL then
           (case re_search temperature_pattern user_input_lower of
              Some g \<Rightarrow> [(''temperature'', VFloat (Finite (of_nat (digits_value (group1 g)))))]
            | None \<Rightarrow>
                if any_in [''cold'', ''cool'', ''cooler''] user_input_lower
                then [(''direction'', VStr ''decrease'')]
                else if any_in [''hot'', ''warm'', ''warmer''] user_input_lower
                then [(''direction'', VStr ''increase'')]
                else [])
         else if intent_type = MUSIC_CONTROL then
           (let track =
                  (if contains user_input_lower ''play'' then
                     (case re_search play_pattern user_input_lower of
                        Some g \<Rightarrow> [(''track'', VStr (strip (group1 g)))]
                      | None \<Rightarrow> [])
                   else []);
                genre =
                  (case filter (contains user_input_lower)
                          [''rock'', ''pop'', ''jazz'', ''classical'', ''electronic'', ''folk'',
                           ''country''] of
                     [] \<Rightarrow> []
                   | genre # _ \<Rightarrow> [(''genre'', VStr genre)])
            in track @ genre)
         else if intent_type = WINDOW_CONTROL then
           (let side =
                  (if contains user_input_lower ''left'' then [(''side'', VStr ''left'')]
                   else if contains user_input_lower ''right'' then [(''side'', VStr ''right'')]
                   else [(''side'', VStr ''both'')]);
                action =
                  (if any_in [''open'', ''down'', ''fresh air''] user_input_lower
                   then [(''action'', VStr ''open'')]
                   else if any_in [''close'', ''up''] user_input_lower
                   then [(''action'', VStr ''close'')]
                   else [])
            in side @ action)
         else if intent_type = SEAT_ADJUSTMENT then
           (if contains user_input_lower ''forward'' then [(''position'', VStr ''forward'')]
            else if contains user_input_lower ''back'' then [(''position'', VStr ''back'')]
            else if contains user_input_lower ''recline'' then [(''position'', VStr ''reclined'')]
            else if contains user_input_lower ''up'' then [(''position'', VStr ''up'')]
            else [])
         else if intent_type = NAVIGATION then
           (case re_search destination_pattern user_input_lower of
              Some g \<Rightarrow> [(''destination'', VStr (strip (group1 g)))]
            | None \<Rightarrow> [])
         else [])"

subsection \<open>Classification\<close>

record IntentResult =
  intent_type :: IntentType
  confidence :: rat
  suggested_tools :: "string list"
  extracted_parameters :: "(string \<times> pyval) list"
  predicted_action :: string

text \<open>
  The division \<open>score / len(patterns)\<close> and \<open>max(scores, key=scores.get)\<close>, with
  the exceptions they raise on a zero divisor and on an empty dictionary. \<open>max\<close>
  returns the first key, in the order of the dictionary, whose value is the greatest.
\<close>

definition truediv :: "nat \<Rightarrow> nat \<Rightarrow> exn + rat" where
  "truediv a b =
     (if b = 0 then Inl (ZeroDivisionError ''division by zero'')
      else Inr (of_nat a / of_nat b))"

fun max_key :: "('k \<times> rat) list \<Rightarrow> exn + 'k" where
  "max_key [] = Inl (ValueError ''max() arg is an empty sequence'')"
| "max_key ((k, v) # rest) =
     Inr (fst (fold (\<lambda>(k', v') (bk, bv). if bv < v' then (k', v') else (bk, bv)) rest (k, v)))"

text \<open>
  The scoring loop of \<open>_classify_intent\<close>: an intent enters \<open>intent_scores\<close> when
  at least one of its patterns is found in the text.
\<close>

fun score_intents ::
  "(IntentType \<times> regex list) list \<Rightarrow> string \<Rightarrow> exn + (IntentType \<times> rat) list" where
  "score_intents [] user_input_lower = Inr []"
| "score_intents ((intent, patterns) # table) user_input_lower =
     (let matches = length (filter (\<lambda>pattern. re_search pattern user_input_lower \<noteq> None)
                              patterns)
      in if 0 < matches then
           (case truediv matches (length patterns) of
              Inl e \<Rightarrow> Inl e
            | Inr score \<Rightarrow>
                (case score_intents table user_input_lower of
                   Inl e \<Rightarrow> Inl e
                 | Inr scores \<Rightarrow> Inr ((intent, score) # scores)))
         else score_intents table user_input_lower)"

definition classify_intent :: "string \<Rightarrow> exn + IntentResult" where
  "classify_intent user_input =
     (case score_intents intent_patterns (lower user_input) of
        Inl e \<Rightarrow> Inl e
      | Inr intent_scores \<Rightarrow>
          (case (if intent_scores \<noteq> [] then
                   (case max_key intent_scores of
                      Inl e \<Rightarrow> Inl e
                    | Inr best \<Rightarrow>
                        (case map_of intent_scores best of
                           None \<Rightarrow> Inl (KeyError ''best_intent'')
                         | Some c \<Rightarrow> Inr (best, c)))
                 else Inr (CONVERSATION, 1 / 10)) of
             Inl e \<Rightarrow> Inl e
           | Inr (best_intent, conf) \<Rightarrow>
               Inr \<lparr> intent_type = best_intent,
                     confidence = conf,
                     suggested_tools =
                       (case map_of intent_tool_mapping best_intent of
                          Some ts \<Rightarrow> ts | None \<Rightarrow> [''talk'']),
                     extracted_parameters = [],
                     predicted_action = predict_action user_input best_intent \<rparr>))"

section \<open>Properties of the state tracker\<close>

text \<open>
  C7. Applying an \<open>open_window\<close> result with arguments
  \<open>{side: "left", action: "open"}\<close> to any environment sets \<open>windows_left\<close> to
  \<open>"open"\<close>, changes no other field (in particular not \<open>windows_right\<close>), and
  reports that the state changed, whatever the result payload is.
\<close>

theorem open_window_left_frame:
  "update_state_from_tool conv env (VStr ''open_window'')
     (VDict [(''side'', VStr ''left''), (''action'', VStr ''open'')]) result
   = (env\<lparr>windows_left := VStr ''open''\<rparr>, True)"
  by (simp add: update_state_from_tool_def py_get_def dict_get_def)

subsection \<open>Loading what was saved\<close>

lemma EnvironmentState_init_to_dict: "EnvironmentState_init (to_dict env) = Inr env"
  by (simp add: EnvironmentState_init_def to_dict_def EnvironmentState_fields_def dict_get_def)

lemma UserPreferences_init_asdict:
  "UserPreferences_init (asdict prefs) = Inr (post_init prefs)"
  by (cases prefs)
     (simp add: UserPreferences_init_def asdict_def UserPreferences_fields_def dict_get_def)

lemma post_init_id: "preferred_artists prefs \<noteq> VNone \<Longrightarrow> post_init prefs = prefs"
  by (simp add: post_init_def)

lemma post_init_artists: "preferred_artists (post_init prefs) \<noteq> VNone"
  by (simp add: post_init_def)

lemma UserPreferences_init_artists:
  assumes "UserPreferences_init pref_data = Inr prefs"
  shows "preferred_artists prefs \<noteq> VNone"
proof (cases pref_data)
  case (VDict e)
  then show ?thesis
    using assms post_init_artists
    by (auto simp: UserPreferences_init_def split: if_splits)
qed (use assms in \<open>simp_all add: UserPreferences_init_def\<close>)

lemma load_written:
  "state_file st = Json (VDict [(''environment'', to_dict env), (''preferences'', asdict prefs),
                         (''context_history'', h), (''saved_at'', VStr s)])
   \<Longrightarrow> load_state st = st\<lparr>environment_state := env, user_preferences := post_init prefs,
                           context_history := h\<rparr>"
  by (simp add: load_state_def EnvironmentState_init_to_dict UserPreferences_init_asdict)

lemma init_Missing:
  "StateTracker_init Missing =
       \<lparr> environment_state = EnvironmentState_default,
         user_preferences = UserPreferences_default,
         context_history = VList [],
         max_history_size = 100,
         state_file = Missing \<rparr>"
  by (simp add: StateTracker_init_def load_state_def)

subsection \<open>The list of artists is never \<open>None\<close>\<close>

lemma load_dict_inv:
  assumes "tracker_inv st" and "state_file st = Json (VDict d)"
  shows "tracker_inv (load_state st)"
proof -
  define environment where "environment =
     (case map_of d ''environment'' of
        None \<Rightarrow> Inr st
      | Some env_data \<Rightarrow>
          (case EnvironmentState_init env_data of
             Inl e \<Rightarrow> Inl e
           | Inr env \<Rightarrow> Inr (st\<lparr>environment_state := env\<rparr>)))"
  show ?thesis
  proof (cases environment)
    case (Inl e)
    then have "load_state st = st"
      using assms(2) by (simp add: load_state_def environment_def)
    then show ?thesis using assms(1) by simp
  next
    case (Inr st1)
    then have st1: "user_preferences st1 = user_preferences st"
      by (auto simp: environment_def split: option.splits sum.splits)
    define preferences where "preferences =
       (case map_of d ''preferences'' of
          None \<Rightarrow> Inr st1
        | Some pref_data \<Rightarrow>
            (case UserPreferences_init pref_data of
               Inl e \<Rightarrow> Inl e
             | Inr prefs \<Rightarrow> Inr (st1\<lparr>user_preferences := prefs\<rparr>)))"
    show ?thesis
    proof (cases preferences)
      case (Inl e)
      then have "load_state st = st1"
        using assms(2) Inr by (simp add: load_state_def environment_def preferences_def)
      then show ?thesis using assms(1) st1 by (simp add: tracker_inv_def)
    next
      case right: (Inr st2)
      then have st2: "preferred_artists (user_preferences st2) \<noteq> VNone"
        using assms(1) st1 UserPreferences_init_artists
        by (auto simp: preferences_def tracker_inv_def split: option.splits sum.splits)
      have "user_preferences (load_state st) = user_preferences st2"
        using assms(2) Inr right
        by (simp add: load_state_def environment_def preferences_def split: option.splits)
      then show ?thesis using st2 by (simp add: tracker_inv_def)
    qed
  qed
qed

lemma load_state_inv:
  assumes "tracker_inv st"
  shows "tracker_inv (load_state st)"
proof (cases "state_file st")
  case (Json v)
  show ?thesis
  proof (cases v)
    case (VDict d)
    then show ?thesis using assms Json by (intro load_dict_inv) simp_all
  qed (use assms Json in \<open>simp_all add: load_state_def\<close>)
qed (use assms in \<open>simp_all add: load_state_def\<close>)

lemma init_inv: "tracker_inv (StateTracker_init file)"
  unfolding StateTracker_init_def
  by (rule load_state_inv)
     (simp add: tracker_inv_def UserPreferences_default_def post_init_artists)

lemma save_state_fields:
  "environment_state (save_state write saved_at st) = environment_state st"
  "user_preferences (save_state write saved_at st) = user_preferences st"
  "context_history (save_state write saved_at st) = context_history st"
  "max_history_size (save_state write saved_at st) = max_history_size st"
  by (simp_all add: save_state_def split: sum.splits)

lemma save_state_inv: "tracker_inv (save_state write saved_at st) = tracker_inv st"
  by (simp add: tracker_inv_def save_state_fields)

lemma update_context_prefs:
  "user_preferences (fst (update_context conv write now saved_at st ui ar trs))
     = user_preferences st"
proof -
  obtain env r where a: "apply_tool_results conv (environment_state st) False trs = (env, r)"
    by (cases "apply_tool_results conv (environment_state st) False trs") auto
  show ?thesis
  proof (cases r)
    case (Inl e)
    then show ?thesis using a by (simp add: update_context_def)
  next
    case (Inr u)
    show ?thesis
    proof (cases "\<exists>h. context_history st = VList h")
      case True
      then obtain h where "context_history st = VList h" by blast
      then show ?thesis
        using a Inr by (simp add: update_context_def Let_def save_state_fields)
    next
      case False
      then have "(case context_history st of VList h \<Rightarrow> f h | _ \<Rightarrow> c) = c" for f and c :: "StateTracker \<times> bool"
        by (cases "context_history st") simp_all
      then show ?thesis
        using a Inr by (simp add: update_context_def Let_def)
    qed
  qed
qed

lemma update_context_inv:
  "tracker_inv st \<Longrightarrow> tracker_inv (fst (update_context conv write now saved_at st ui ar trs))"
  by (simp add: tracker_inv_def update_context_prefs)

lemma remember_preference_inv:
  assumes "tracker_inv st"
  shows "tracker_inv (fst (remember_preference conv other write now saved_at st key val))"
proof -
  have p: "preferred_artists (user_preferences st) \<noteq> VNone"
    using assms by (simp add: tracker_inv_def)
  have keep: "tracker_inv (save_state write saved_at st)"
    using assms by (simp add: save_state_inv)
  have upd: "tracker_inv (save_state write saved_at (st\<lparr>user_preferences := q\<rparr>))"
    if "preferred_artists q \<noteq> VNone" for q
    using that by (simp add: tracker_inv_def save_state_fields)
  have hist: "tracker_inv (save_state write saved_at (st\<lparr>context_history := k\<rparr>))" for k
    using p by (simp add: tracker_inv_def save_state_fields)
  consider (temp) "key = ''preferred_temperature''"
    | (genre) "key \<noteq> ''preferred_temperature''" "key = ''preferred_music_genre''"
    | (artist) "key \<noteq> ''preferred_temperature''" "key \<noteq> ''preferred_music_genre''"
        "key = ''preferred_artist''"
    | (lang) "key \<noteq> ''preferred_temperature''" "key \<noteq> ''preferred_music_genre''"
        "key \<noteq> ''preferred_artist''" "key = ''language''"
    | (tts) "key \<noteq> ''preferred_temperature''" "key \<noteq> ''preferred_music_genre''"
        "key \<noteq> ''preferred_artist''" "key \<noteq> ''language''" "key = ''tts_enabled''"
    | (custom) "key \<noteq> ''preferred_temperature''" "key \<noteq> ''preferred_music_genre''"
        "key \<noteq> ''preferred_artist''" "key \<noteq> ''language''" "key \<noteq> ''tts_enabled''"
    by blast
  then show ?thesis
  proof cases
    case temp
    show ?thesis
    proof (cases "py_float conv val")
      case (Inl e)
      then show ?thesis using temp assms by (simp add: remember_preference_def)
    next
      case (Inr t)
      then show ?thesis using temp upd p by (simp add: remember_preference_def)
    qed
  next
    case genre
    then show ?thesis using upd p by (simp add: remember_preference_def)
  next
    case artist
    show ?thesis
    proof (cases "py_in val (preferred_artists (user_preferences st))")
      case (Inl e)
      then show ?thesis using artist assms by (simp add: remember_preference_def)
    next
      case (Inr b)
      show ?thesis
      proof (cases b)
        case True
        then show ?thesis using artist Inr keep by (simp add: remember_preference_def)
      next
        case False
        show ?thesis
        proof (cases "\<exists>artists. preferred_artists (user_preferences st) = VList artists")
          case True
          then obtain artists where "preferred_artists (user_preferences st) = VList artists"
            by blast
          then show ?thesis using artist Inr False upd
            by (simp add: remember_preference_def)
        next
          case no: False
          then have "(case preferred_artists (user_preferences st) of
                        VList artists \<Rightarrow> f artists | _ \<Rightarrow> (st, False)) = (st, False)" for f
            by (cases "preferred_artists (user_preferences st)") simp_all
          then show ?thesis using artist Inr False assms
            by (simp add: remember_preference_def)
        qed
      qed
    qed
  next
    case lang
    then show ?thesis using upd p by (simp add: remember_preference_def)
  next
    case tts
    then show ?thesis using upd p by (simp add: remember_preference_def)
  next
    case custom
    show ?thesis
    proof (cases "\<exists>h. context_history st = VList h")
      case True
      then obtain h where "context_history st = VList h" by blast
      then show ?thesis using custom hist by (simp add: remember_preference_def)
    next
      case False
      then have "(case context_history st of VList h \<Rightarrow> f h | _ \<Rightarrow> (st, False)) = (st, False)"
        for f
        by (cases "context_history st") simp_all
      then show ?thesis using custom assms by (simp add: remember_preference_def)
    qed
  qed
qed

lemma reset_context_inv: "tracker_inv (reset_context write saved_at st)"
  by (simp add: reset_context_def tracker_inv_def save_state_fields UserPreferences_default_def
        post_init_artists)

lemma reachable_inv: "reachable st \<Longrightarrow> tracker_inv st"
proof (induction rule: reachable.induct)
  case (init snapshot)
  show ?case by (rule init_inv)
next
  case (update st)
  from update.IH show ?case by (rule update_context_inv)
next
  case (remember st)
  from remember.IH show ?case by (rule remember_preference_inv)
next
  case (reset st)
  show ?case by (rule reset_context_inv)
next
  case (reload st)
  from reload.IH show ?case by (rule load_state_inv)
next
  case (resize st n)
  from resize.IH show ?case by (simp add: tracker_inv_def)
qed

subsection \<open>Values without NaN equal themselves\<close>

lemma py_eq_list_refl: "(\<And>x. x \<in> set xs \<Longrightarrow> py_eq x x) \<Longrightarrow> py_eq_list xs xs"
  by (induction xs) simp_all

lemma py_eq_items_lookup:
  "(\<And>k v. (k, v) \<in> set d \<Longrightarrow> map_of e k = Some v \<and> py_eq v v) \<Longrightarrow> py_eq_items d e"
proof (induction d)
  case Nil
  show ?case by simp
next
  case (Cons kv d)
  obtain k v where kv: "kv = (k, v)" by (cases kv)
  have "map_of e k = Some v \<and> py_eq v v"
    using Cons.prems [of k v] by (simp add: kv)
  moreover have "py_eq_items d e"
    using Cons.prems by (intro Cons.IH) auto
  ultimately show ?case by (simp add: kv)
qed

lemma py_eq_refl: "nan_free v \<Longrightarrow> py_eq v v"
proof (induction v)
  case (VFloat f)
  then show ?case by (cases f) simp_all
next
  case (VList xs)
  then show ?case by (auto intro: py_eq_list_refl)
next
  case (VDict d)
  have "py_eq_items d d"
  proof (rule py_eq_items_lookup)
    fix k v assume kv: "(k, v) \<in> set d"
    have "map_of d k = Some v"
      using VDict.prems kv by simp
    moreover have "py_eq v v"
      using VDict.IH [of "(k, v)" v] VDict.prems kv by auto
    ultimately show "map_of d k = Some v \<and> py_eq v v" by simp
  qed
  then show ?case by simp
qed simp_all

lemma EnvironmentState_eq_refl:
  "nan_free (to_dict env) \<Longrightarrow> EnvironmentState_eq env env"
  by (simp add: to_dict_def EnvironmentState_eq_def py_eq_refl)

lemma UserPreferences_eq_refl:
  "nan_free (asdict prefs) \<Longrightarrow> UserPreferences_eq prefs prefs"
  by (simp add: asdict_def UserPreferences_eq_def py_eq_refl)


subsection \<open>The history cap\<close>

lemma py_slice_from_length:
  assumes "0 < n"
  shows "int (length (py_slice_from (- n) xs)) \<le> n"
  using assms by (auto simp: py_slice_from_def)

text \<open>
  A context update keeps a history that is within a positive cap within it: the entry is
  appended and the list cut back to its last \<open>max_history_size\<close> entries.
\<close>

lemma update_context_keeps_cap:
  assumes "context_history st = VList h" and "0 < max_history_size st"
    and "int (length h) \<le> max_history_size st"
  shows "\<exists>h'. context_history (fst (update_context conv write now saved_at st user_input
            agent_response tool_results)) = VList h'
          \<and> int (length h') \<le> max_history_size st"
proof -
  obtain env r where a:
    "apply_tool_results conv (environment_state st) False tool_results = (env, r)"
    by (cases "apply_tool_results conv (environment_state st) False tool_results") auto
  show ?thesis
  proof (cases r)
    case (Inl e)
    then show ?thesis
      using a assms by (simp add: update_context_def)
  next
    case (Inr u)
    then show ?thesis
      using a assms py_slice_from_length [of "max_history_size st"]
      by (cases u) (auto simp: update_context_def Let_def save_state_fields)
  qed
qed

lemma remember_custom:
  assumes "context_history st = VList h"
  shows "context_history (fst (remember_preference conv other write now saved_at st
            ''favorite_color'' val))
         = VList (h @ [VDict [(''timestamp'', VStr now), (''type'', VStr ''preference''),
                              (''key'', VStr ''favorite_color''), (''value'', val)]])
       \<and> max_history_size (fst (remember_preference conv other write now saved_at st
            ''favorite_color'' val)) = max_history_size st"
  using assms by (simp add: remember_preference_def save_state_fields)

lemma remember_custom_fold:
  assumes "context_history st = VList h"
  shows "\<exists>k. context_history (fold (\<lambda>v s. fst (remember_preference conv other write now
              saved_at s ''favorite_color'' v)) vs st) = VList (h @ k) \<and> length k = length vs
       \<and> max_history_size (fold (\<lambda>v s. fst (remember_preference conv other write now
              saved_at s ''favorite_color'' v)) vs st) = max_history_size st"
  using assms
proof (induction vs arbitrary: st h)
  case Nil
  then show ?case by simp
next
  case (Cons v vs)
  let ?st = "fst (remember_preference conv other write now saved_at st ''favorite_color'' v)"
  let ?e = "VDict [(''timestamp'', VStr now), (''type'', VStr ''preference''),
                   (''key'', VStr ''favorite_color''), (''value'', v)]"
  have c: "context_history ?st = VList (h @ [?e])" and m: "max_history_size ?st = max_history_size st"
    using remember_custom [OF Cons.prems] by simp_all
  from Cons.IH [OF c] obtain k where
    "context_history (fold (\<lambda>v s. fst (remember_preference conv other write now saved_at s
              ''favorite_color'' v)) vs ?st) = VList ((h @ [?e]) @ k)"
    "length k = length vs"
    "max_history_size (fold (\<lambda>v s. fst (remember_preference conv other write now saved_at s
              ''favorite_color'' v)) vs ?st) = max_history_size ?st"
    by blast
  then show ?case using m
    by (intro exI [of _ "?e # k"]) simp
qed

text \<open>
  C3. The history cap is not kept by preference stores: \<open>update_context\<close> trims the
  history after appending, \<open>remember_preference\<close> appends a custom preference and
  does not. On a fresh tracker, 101 stores of the custom key \<open>favorite_color\<close> leave
  101 entries in the history while the cap is still 100.
\<close>

theorem remember_preference_exceeds_cap:
  "context_history_size
     (fold (\<lambda>v s. fst (remember_preference conv other write now saved_at s
                          ''favorite_color'' v))
        (replicate 101 (VStr ''blue'')) (StateTracker_init Missing)) = Inr 101
   \<and> max_history_size
     (fold (\<lambda>v s. fst (remember_preference conv other write now saved_at s
                          ''favorite_color'' v))
        (replicate 101 (VStr ''blue'')) (StateTracker_init Missing)) = 100"
proof -
  have "context_history (StateTracker_init Missing) = VList []"
    by (simp add: init_Missing)
  from remember_custom_fold [OF this, of "conv" "other" "write" "now" "saved_at"
      "replicate 101 (VStr ''blue'')"]
  show ?thesis
    by (auto simp: context_history_size_def py_len_def init_Missing)
qed

subsection \<open>A temperature of zero\<close>

text \<open>
  C10. A \<open>set_temperature\<close> result whose arguments carry the temperature 0 (the
  integer or the float) and whose result has no \<open>current_temperature\<close> leaves the
  environment as it was and reports no change: 0 is falsy, so the \<open>or\<close> falls
  through to the missing result field and the guard \<open>if new_temp\<close> fails.
\<close>

theorem set_temperature_zero_dropped:
  assumes "map_of a ''temperature'' = Some t" and "t = VInt 0 \<or> t = VFloat (Finite 0)"
    and "map_of r ''current_temperature'' = None"
  shows "update_state_from_tool conv env (VStr ''set_temperature'') (VDict a) (VDict r)
         = (env, False)"
  using assms
  by (auto simp: update_state_from_tool_def get_or_get_def py_get_def dict_get_def)

theorem set_temperature_zero_dropped_witness:
  "map_of [(''temperature'', VInt 0)] ''temperature'' = Some (VInt 0)
   \<and> map_of [(''success'', VBool True)] ''current_temperature'' = None
   \<and> update_state_from_tool
        \<lparr>float_of_str = (\<lambda>s. None), float_of_int = (\<lambda>i. Some (Finite (of_int i)))\<rparr>
        EnvironmentState_default (VStr ''set_temperature'')
        (VDict [(''temperature'', VInt 0)]) (VDict [(''success'', VBool True)])
      = (EnvironmentState_default, False)"
  using set_temperature_zero_dropped [of "[(''temperature'', VInt 0)]" "VInt 0"
      "[(''success'', VBool True)]"
      "\<lparr>float_of_str = (\<lambda>s. None), float_of_int = (\<lambda>i. Some (Finite (of_int i)))\<rparr>"
      EnvironmentState_default]
  by simp

subsection \<open>Saving and loading\<close>

lemma state_data_doc:
  assumes "state_data saved_at st = Inr doc"
  obtains recent where
    "doc = VDict [(''environment'', to_dict (environment_state st)),
                  (''preferences'', asdict (user_preferences st)),
                  (''context_history'', recent),
                  (''saved_at'', VStr saved_at)]"
  using assms by (auto simp: state_data_def split: sum.splits)

lemma init_written:
  "StateTracker_init (Json (VDict [(''environment'', to_dict env),
       (''preferences'', asdict prefs), (''context_history'', h), (''saved_at'', VStr s)]))
   = \<lparr> environment_state = env,
       user_preferences = post_init prefs,
       context_history = h,
       max_history_size = 100,
       state_file = Json (VDict [(''environment'', to_dict env),
         (''preferences'', asdict prefs), (''context_history'', h), (''saved_at'', VStr s)]) \<rparr>"
  unfolding StateTracker_init_def by (subst load_written) simp_all

lemma roundtrip_same:
  assumes "tracker_inv st" and "save_succeeds write saved_at st"
  shows "environment_state (StateTracker_init (state_file (save_state write saved_at st)))
           = environment_state st
       \<and> user_preferences (StateTracker_init (state_file (save_state write saved_at st)))
           = user_preferences st"
proof -
  obtain doc where doc: "state_data saved_at st = Inr doc" "write (state_file st) doc = Json doc"
    using assms(2) by (auto simp: save_succeeds_def split: sum.splits)
  obtain recent where recent:
    "doc = VDict [(''environment'', to_dict (environment_state st)),
                  (''preferences'', asdict (user_preferences st)),
                  (''context_history'', recent),
                  (''saved_at'', VStr saved_at)]"
    using doc(1) by (rule state_data_doc)
  have "state_file (save_state write saved_at st) = Json doc"
    using doc by (simp add: save_state_def)
  moreover have "post_init (user_preferences st) = user_preferences st"
    using assms(1) by (simp add: tracker_inv_def post_init_id)
  ultimately show ?thesis
    by (simp add: recent init_written)
qed

lemma init_unreadable:
  "StateTracker_init Corrupt =
       \<lparr> environment_state = EnvironmentState_default,
         user_preferences = UserPreferences_default,
         context_history = VList [],
         max_history_size = 100,
         state_file = Corrupt \<rparr>"
  by (simp add: StateTracker_init_def load_state_def)

lemma py_eq_nan: "\<not> py_eq v (VFloat NaN)"
  by (cases v) (simp_all split: pyfloat.splits)

lemma temperature_differs:
  "\<not> py_eq (temperature a) (temperature b) \<Longrightarrow> \<not> EnvironmentState_eq a b"
  by (simp add: EnvironmentState_eq_def)


text \<open>
  C8, as stated, fails, in three ways. (1) A temperature given as the string
  \<open>'nan'\<close> is stored as \<open>float('nan')\<close>; it is saved and loaded, and the loaded
  field does not equal the original, since NaN equals nothing. (2) When the dump
  breaks off and leaves a file that is not JSON, the fresh tracker cannot load it and
  has the defaults. (3) A tracker constructed on an existing snapshot whose
  \<open>context_history\<close> is \<open>null\<close> applies the tool result, fails to append to the
  history, and skips every save because the history cannot be sliced; the fresh tracker
  loads the old snapshot. In each case the tracker is reachable and the loaded
  environment does not equal the original.
\<close>

theorem save_load_roundtrip_fails:
  "reachable (fst (update_context
        \<lparr>float_of_str = (\<lambda>s. if s = ''nan'' then Some NaN else None),
          float_of_int = (\<lambda>i. Some (Finite (of_int i)))\<rparr>
        (\<lambda>old doc. Json doc) ''t1'' ''t2'' (StateTracker_init Missing) ''set the temperature'' ''done''
        [VDict [(''success'', VBool True), (''tool'', VStr ''set_temperature''),
                (''arguments'', VDict [(''temperature'', VStr ''nan'')]),
                (''result'', VDict [])]]))
   \<and> \<not> EnvironmentState_eq
        (environment_state (StateTracker_init (state_file (save_state (\<lambda>old doc. Json doc) ''t3''
          (fst (update_context
        \<lparr>float_of_str = (\<lambda>s. if s = ''nan'' then Some NaN else None),
          float_of_int = (\<lambda>i. Some (Finite (of_int i)))\<rparr>
        (\<lambda>old doc. Json doc) ''t1'' ''t2'' (StateTracker_init Missing) ''set the temperature'' ''done''
        [VDict [(''success'', VBool True), (''tool'', VStr ''set_temperature''),
                (''arguments'', VDict [(''temperature'', VStr ''nan'')]),
                (''result'', VDict [])]]))))))
        (environment_state (fst (update_context
        \<lparr>float_of_str = (\<lambda>s. if s = ''nan'' then Some NaN else None),
          float_of_int = (\<lambda>i. Some (Finite (of_int i)))\<rparr>
        (\<lambda>old doc. Json doc) ''t1'' ''t2'' (StateTracker_init Missing) ''set the temperature'' ''done''
        [VDict [(''success'', VBool True), (''tool'', VStr ''set_temperature''),
                (''arguments'', VDict [(''temperature'', VStr ''nan'')]),
                (''result'', VDict [])]])))
   \<and> reachable (fst (update_context
        \<lparr>float_of_str = (\<lambda>s. if s = ''nan'' then Some NaN else None),
          float_of_int = (\<lambda>i. Some (Finite (of_int i)))\<rparr>
        (\<lambda>old doc. Corrupt) ''t1'' ''t2'' (StateTracker_init Missing) ''set the temperature'' ''done''
        [VDict [(''success'', VBool True), (''tool'', VStr ''set_temperature''),
                (''arguments'', VDict [(''temperature'', VInt 24)]),
                (''result'', VDict [])]]))
   \<and> \<not> EnvironmentState_eq
        (environment_state (StateTracker_init (state_file (save_state (\<lambda>old doc. Corrupt) ''t3''
          (fst (update_context
        \<lparr>float_of_str = (\<lambda>s. if s = ''nan'' then Some NaN else None),
          float_of_int = (\<lambda>i. Some (Finite (of_int i)))\<rparr>
        (\<lambda>old doc. Corrupt) ''t1'' ''t2'' (StateTracker_init Missing) ''set the temperature'' ''done''
        [VDict [(''success'', VBool True), (''tool'', VStr ''set_temperature''),
                (''arguments'', VDict [(''temperature'', VInt 24)]),
                (''result'', VDict [])]]))))))
        (environment_state (fst (update_context
        \<lparr>float_of_str = (\<lambda>s. if s = ''nan'' then Some NaN else None),
          float_of_int = (\<lambda>i. Some (Finite (of_int i)))\<rparr>
        (\<lambda>old doc. Corrupt) ''t1'' ''t2'' (StateTracker_init Missing) ''set the temperature'' ''done''
        [VDict [(''success'', VBool True), (''tool'', VStr ''set_temperature''),
                (''arguments'', VDict [(''temperature'', VInt 24)]),
                (''result'', VDict [])]])))
   \<and> reachable (fst (update_context
        \<lparr>float_of_str = (\<lambda>s. if s = ''nan'' then Some NaN else None),
          float_of_int = (\<lambda>i. Some (Finite (of_int i)))\<rparr>
        (\<lambda>old doc. Json doc) ''t1'' ''t2'' (StateTracker_init (Json (VDict [(''context_history'', VNone)]))) ''set the temperature'' ''done''
        [VDict [(''success'', VBool True), (''tool'', VStr ''set_temperature''),
                (''arguments'', VDict [(''temperature'', VInt 24)]),
                (''result'', VDict [])]]))
   \<and> \<not> EnvironmentState_eq
        (environment_state (StateTracker_init (state_file (save_state (\<lambda>old doc. Json doc) ''t3''
          (fst (update_context
        \<lparr>float_of_str = (\<lambda>s. if s = ''nan'' then Some NaN else None),
          float_of_int = (\<lambda>i. Some (Finite (of_int i)))\<rparr>
        (\<lambda>old doc. Json doc) ''t1'' ''t2'' (StateTracker_init (Json (VDict [(''context_history'', VNone)]))) ''set the temperature'' ''done''
        [VDict [(''success'', VBool True), (''tool'', VStr ''set_temperature''),
                (''arguments'', VDict [(''temperature'', VInt 24)]),
                (''result'', VDict [])]]))))))
        (environment_state (fst (update_context
        \<lparr>float_of_str = (\<lambda>s. if s = ''nan'' then Some NaN else None),
          float_of_int = (\<lambda>i. Some (Finite (of_int i)))\<rparr>
        (\<lambda>old doc. Json doc) ''t1'' ''t2'' (StateTracker_init (Json (VDict [(''context_history'', VNone)]))) ''set the temperature'' ''done''
        [VDict [(''success'', VBool True), (''tool'', VStr ''set_temperature''),
                (''arguments'', VDict [(''temperature'', VInt 24)]),
                (''result'', VDict [])]])))"
proof -
  define conv where "conv = \<lparr>float_of_str = (\<lambda>s. if s = ''nan'' then Some NaN else None),
          float_of_int = (\<lambda>i. Some (Finite (of_int i)))\<rparr>"
  define args where "args = (\<lambda>t. [VDict [(''success'', VBool True),
      (''tool'', VStr ''set_temperature''), (''arguments'', VDict [(''temperature'', t)]),
      (''result'', VDict [])]])"
  define good where "good = (\<lambda>(old :: snapshot_file) doc. Json doc)"
  define bad where "bad = (\<lambda>(old :: snapshot_file) (doc :: pyval). Corrupt)"
  define existing where "existing = Json (VDict [(''context_history'', VNone)])"
  define st1 where "st1 = fst (update_context conv good ''t1'' ''t2'' (StateTracker_init Missing)
      ''set the temperature'' ''done'' (args (VStr ''nan'')))"
  define st2 where "st2 = fst (update_context conv bad ''t1'' ''t2'' (StateTracker_init Missing)
      ''set the temperature'' ''done'' (args (VInt 24)))"
  define st3 where "st3 = fst (update_context conv good ''t1'' ''t2'' (StateTracker_init existing)
      ''set the temperature'' ''done'' (args (VInt 24)))"
  have r1: "reachable st1" and r2: "reachable st2" and r3: "reachable st3"
    unfolding st1_def st2_def st3_def by (intro reachable.update reachable.init)+
  have t1: "temperature (environment_state st1) = VFloat NaN"
    by (simp add: st1_def args_def conv_def update_context_def init_Missing
          update_state_from_tool_def get_or_get_def py_get_def dict_get_def py_float_def
          save_state_fields Let_def)
  have n1: "\<not> EnvironmentState_eq a (environment_state st1)" for a
    by (rule temperature_differs) (simp add: t1 py_eq_nan)
  have t2: "temperature (environment_state st2) = VFloat (Finite 24)"
    by (simp add: st2_def args_def conv_def update_context_def init_Missing
          update_state_from_tool_def get_or_get_def py_get_def dict_get_def py_float_def
          save_state_fields Let_def)
  have h2: "context_history st2 \<noteq> VNone"
    by (simp add: st2_def args_def conv_def update_context_def init_Missing
          update_state_from_tool_def get_or_get_def py_get_def dict_get_def py_float_def
          save_state_fields Let_def)
  have f2: "state_file (save_state bad ''t3'' st2) = Corrupt"
  proof -
    have "context_history st2 = VList (py_slice_from (- 100)
        [VDict [(''timestamp'', VStr ''t1''), (''user_input'', VStr ''set the temperature''),
                (''agent_response'', VStr ''done''), (''tool_results'', VList (args (VInt 24))),
                (''state_snapshot'',
                   to_dict (EnvironmentState_default\<lparr>temperature := VFloat (Finite 24)\<rparr>))]])
      \<or> context_history st2 = VList
        [VDict [(''timestamp'', VStr ''t1''), (''user_input'', VStr ''set the temperature''),
                (''agent_response'', VStr ''done''), (''tool_results'', VList (args (VInt 24))),
                (''state_snapshot'',
                   to_dict (EnvironmentState_default\<lparr>temperature := VFloat (Finite 24)\<rparr>))]]"
      by (simp add: st2_def conv_def update_context_def init_Missing
          update_state_from_tool_def get_or_get_def py_get_def dict_get_def py_float_def
          save_state_fields Let_def args_def)
    then show ?thesis
      by (auto simp: save_state_def state_data_def bad_def)
  qed
  have d2: "temperature (environment_state (StateTracker_init Corrupt)) = VFloat (Finite 22)"
    by (simp add: init_unreadable EnvironmentState_default_def)
  have n2: "\<not> EnvironmentState_eq
      (environment_state (StateTracker_init (state_file (save_state bad ''t3'' st2))))
      (environment_state st2)"
    by (rule temperature_differs) (simp add: f2 d2 t2)
  have i3: "StateTracker_init existing =
       \<lparr> environment_state = EnvironmentState_default,
         user_preferences = UserPreferences_default,
         context_history = VNone,
         max_history_size = 100,
         state_file = existing \<rparr>"
    by (simp add: StateTracker_init_def load_state_def existing_def)
  have s3: "st3 = (StateTracker_init existing)
      \<lparr>environment_state := EnvironmentState_default\<lparr>temperature := VFloat (Finite 24)\<rparr>\<rparr>"
    by (simp add: st3_def args_def conv_def update_context_def i3
          update_state_from_tool_def get_or_get_def py_get_def dict_get_def py_float_def)
  have f3: "state_file (save_state good ''t3'' st3) = existing"
    by (simp add: s3 i3 save_state_def state_data_def)
  have t3: "temperature (environment_state st3) = VFloat (Finite 24)"
    by (simp add: s3)
  have d3: "temperature (environment_state (StateTracker_init existing)) = VFloat (Finite 22)"
    by (simp add: i3 EnvironmentState_default_def)
  have n3: "\<not> EnvironmentState_eq
      (environment_state (StateTracker_init (state_file (save_state good ''t3'' st3))))
      (environment_state st3)"
    by (rule temperature_differs) (simp add: f3 d3 t3)
  show ?thesis
    using r1 n1 r2 n2 r3 n3
    unfolding st1_def st2_def st3_def conv_def args_def good_def bad_def existing_def
    by blast
qed

text \<open>
  C8, amended. For every reachable tracker whose save goes through (the history can be
  sliced, the dump and the write succeed, and the file reads back as the document
  written) and whose environment and preference fields hold no NaN, saving the state
  and then constructing a fresh tracker on the snapshot file yields an environment
  state and user preferences equal field by field to the originals.
\<close>

theorem save_load_roundtrip:
  assumes "reachable st"
    and "save_succeeds write saved_at st"
    and "nan_free (to_dict (environment_state st))"
    and "nan_free (asdict (user_preferences st))"
  shows "EnvironmentState_eq
           (environment_state (StateTracker_init (state_file (save_state write saved_at st))))
           (environment_state st)
       \<and> UserPreferences_eq
           (user_preferences (StateTracker_init (state_file (save_state write saved_at st))))
           (user_preferences st)"
proof -
  have "tracker_inv st"
    using assms(1) by (rule reachable_inv)
  then have "environment_state (StateTracker_init (state_file (save_state write saved_at st)))
           = environment_state st
       \<and> user_preferences (StateTracker_init (state_file (save_state write saved_at st)))
           = user_preferences st"
    using assms(2) by (rule roundtrip_same)
  then show ?thesis
    using assms(3,4) by (simp add: EnvironmentState_eq_refl UserPreferences_eq_refl)
qed

theorem save_load_roundtrip_witness:
  "reachable (fst (update_context
        \<lparr>float_of_str = (\<lambda>s. if s = ''nan'' then Some NaN else None),
          float_of_int = (\<lambda>i. Some (Finite (of_int i)))\<rparr>
        (\<lambda>old doc. Json doc) ''t1'' ''t2'' (StateTracker_init Missing) ''set the temperature'' ''done''
        [VDict [(''success'', VBool True), (''tool'', VStr ''set_temperature''),
                (''arguments'', VDict [(''temperature'', VInt 24)]),
                (''result'', VDict [])]]))
   \<and> save_succeeds (\<lambda>old doc. Json doc) ''t3'' (fst (update_context
        \<lparr>float_of_str = (\<lambda>s. if s = ''nan'' then Some NaN else None),
          float_of_int = (\<lambda>i. Some (Finite (of_int i)))\<rparr>
        (\<lambda>old doc. Json doc) ''t1'' ''t2'' (StateTracker_init Missing) ''set the temperature'' ''done''
        [VDict [(''success'', VBool True), (''tool'', VStr ''set_temperature''),
                (''arguments'', VDict [(''temperature'', VInt 24)]),
                (''result'', VDict [])]]))
   \<and> nan_free (to_dict (environment_state (fst (update_context
        \<lparr>float_of_str = (\<lambda>s. if s = ''nan'' then Some NaN else None),
          float_of_int = (\<lambda>i. Some (Finite (of_int i)))\<rparr>
        (\<lambda>old doc. Json doc) ''t1'' ''t2'' (StateTracker_init Missing) ''set the temperature'' ''done''
        [VDict [(''success'', VBool True), (''tool'', VStr ''set_temperature''),
                (''arguments'', VDict [(''temperature'', VInt 24)]),
                (''result'', VDict [])]]))))
   \<and> nan_free (asdict (user_preferences (fst (update_context
        \<lparr>float_of_str = (\<lambda>s. if s = ''nan'' then Some NaN else None),
          float_of_int = (\<lambda>i. Some (Finite (of_int i)))\<rparr>
        (\<lambda>old doc. Json doc) ''t1'' ''t2'' (StateTracker_init Missing) ''set the temperature'' ''done''
        [VDict [(''success'', VBool True), (''tool'', VStr ''set_temperature''),
                (''arguments'', VDict [(''temperature'', VInt 24)]),
                (''result'', VDict [])]]))))
   \<and> temperature (environment_state (fst (update_context
        \<lparr>float_of_str = (\<lambda>s. if s = ''nan'' then Some NaN else None),
          float_of_int = (\<lambda>i. Some (Finite (of_int i)))\<rparr>
        (\<lambda>old doc. Json doc) ''t1'' ''t2'' (StateTracker_init Missing) ''set the temperature'' ''done''
        [VDict [(''success'', VBool True), (''tool'', VStr ''set_temperature''),
                (''arguments'', VDict [(''temperature'', VInt 24)]),
                (''result'', VDict [])]]))) = VFloat (Finite 24)
   \<and> EnvironmentState_eq
        (environment_state (StateTracker_init (state_file (save_state (\<lambda>old doc. Json doc) ''t3''
          (fst (update_context
        \<lparr>float_of_str = (\<lambda>s. if s = ''nan'' then Some NaN else None),
          float_of_int = (\<lambda>i. Some (Finite (of_int i)))\<rparr>
        (\<lambda>old doc. Json doc) ''t1'' ''t2'' (StateTracker_init Missing) ''set the temperature'' ''done''
        [VDict [(''success'', VBool True), (''tool'', VStr ''set_temperature''),
                (''arguments'', VDict [(''temperature'', VInt 24)]),
                (''result'', VDict [])]]))))))
        (environment_state (fst (update_context
        \<lparr>float_of_str = (\<lambda>s. if s = ''nan'' then Some NaN else None),
          float_of_int = (\<lambda>i. Some (Finite (of_int i)))\<rparr>
        (\<lambda>old doc. Json doc) ''t1'' ''t2'' (StateTracker_init Missing) ''set the temperature'' ''done''
        [VDict [(''success'', VBool True), (''tool'', VStr ''set_temperature''),
                (''arguments'', VDict [(''temperature'', VInt 24)]),
                (''result'', VDict [])]])))
   \<and> UserPreferences_eq
        (user_preferences (StateTracker_init (state_file (save_state (\<lambda>old doc. Json doc) ''t3''
          (fst (update_context
        \<lparr>float_of_str = (\<lambda>s. if s = ''nan'' then Some NaN else None),
          float_of_int = (\<lambda>i. Some (Finite (of_int i)))\<rparr>
        (\<lambda>old doc. Json doc) ''t1'' ''t2'' (StateTracker_init Missing) ''set the temperature'' ''done''
        [VDict [(''success'', VBool True), (''tool'', VStr ''set_temperature''),
                (''arguments'', VDict [(''temperature'', VInt 24)]),
                (''result'', VDict [])]]))))))
        (user_preferences (fst (update_context
        \<lparr>float_of_str = (\<lambda>s. if s = ''nan'' then Some NaN else None),
          float_of_int = (\<lambda>i. Some (Finite (of_int i)))\<rparr>
        (\<lambda>old doc. Json doc) ''t1'' ''t2'' (StateTracker_init Missing) ''set the temperature'' ''done''
        [VDict [(''success'', VBool True), (''tool'', VStr ''set_temperature''),
                (''arguments'', VDict [(''temperature'', VInt 24)]),
                (''result'', VDict [])]])))"
proof -
  define st where "st = (fst (update_context
        \<lparr>float_of_str = (\<lambda>s. if s = ''nan'' then Some NaN else None),
          float_of_int = (\<lambda>i. Some (Finite (of_int i)))\<rparr>
        (\<lambda>old doc. Json doc) ''t1'' ''t2'' (StateTracker_init Missing) ''set the temperature'' ''done''
        [VDict [(''success'', VBool True), (''tool'', VStr ''set_temperature''),
                (''arguments'', VDict [(''temperature'', VInt 24)]),
                (''result'', VDict [])]]))"
  have r: "reachable st"
    unfolding st_def by (intro reachable.update reachable.init)
  have e: "environment_state st = EnvironmentState_default\<lparr>temperature := VFloat (Finite 24)\<rparr>"
    and p: "user_preferences st = UserPreferences_default"
    and h: "\<exists>h. context_history st = VList h"
    by (simp_all add: st_def update_context_def init_Missing update_state_from_tool_def
          get_or_get_def py_get_def dict_get_def py_float_def save_state_fields Let_def)
  have s: "save_succeeds (\<lambda>old doc. Json doc) ''t3'' st"
    using h by (auto simp: save_succeeds_def state_data_def)
  have n: "nan_free (to_dict (environment_state st))"
    by (simp add: e to_dict_def EnvironmentState_default_def)
  have m: "nan_free (asdict (user_preferences st))"
    by (simp add: p asdict_def UserPreferences_default_def post_init_def)
  have t: "temperature (environment_state st) = VFloat (Finite 24)"
    by (simp add: e)
  show ?thesis
    using r s n m t save_load_roundtrip [OF r s n m]
    unfolding st_def by blast
qed


section \<open>Properties of the tool dispatcher\<close>

lemma request_loop_retry:
  assumes "\<And>k. k < r \<Longrightarrow> attempt_request post other clk url payload (a + k) False = Next"
    and "attempt_request post other clk url payload (a + r) True = Done x"
  shows "request_loop post other clk url payload a (Suc r) = (x, replicate (Suc r) url)"
  using assms
proof (induction r arbitrary: a)
  case 0
  then show ?case by simp
next
  case (Suc r)
  have first: "attempt_request post other clk url payload a False = Next"
    using Suc.prems(1) [of 0] by simp
  have rest: "request_loop post other clk url payload (Suc a) (Suc r) = (x, replicate (Suc r) url)"
  proof (rule Suc.IH)
    fix k assume "k < r"
    then show "attempt_request post other clk url payload (Suc a + k) False = Next"
      using Suc.prems(1) [of "Suc k"] by simp
  next
    show "attempt_request post other clk url payload (Suc a + r) True = Done x"
      using Suc.prems(2) by simp
  qed
  show ?case
    using first rest by simp
qed

lemma request_loop_first:
  assumes "attempt_request post other clk url payload a (r = 0) = Done x"
  shows "request_loop post other clk url payload a (Suc r) = (x, [url])"
  using assms by simp


lemma tool_server_map_init:
  "tool_server_map (ToolDispatcher_init env) t =
     (if t \<in> {''get_weather'', ''get_location'', ''play_spotify'', ''reroute''} then Some ''external''
      else if t \<in> {''talk'', ''remember'', ''ask_confirm'', ''summarize''} then Some ''conversation''
      else if t \<in> {''start_simulation'', ''pause_simulation'', ''reset_simulation'', ''log_event''}
        then Some ''sim_session''
      else if t \<in> {''set_temperature'', ''set_music'', ''open_window'', ''adjust_seat''}
        then Some ''sim_actions''
      else None)"
  by (simp add: ToolDispatcher_init_def)



lemma str_int_24: "str_int 24 = ''24''"
  by (simp add: str_int_def str_nat.simps)

lemma str_int_8001: "str_int 8001 = ''8001''"
  by (simp add: str_int_def str_nat.simps)


lemma offline_payload:
  "handle_offline_server other clk (request_payload clk t (VDict p)) =
     Inr (case map_of (mock_responses other clk p) t of
            Some m \<Rightarrow> m
          | None \<Rightarrow> VDict [(''success'', VBool False),
                          (''error'', VStr (''Mock response not available for '' @ t)),
                          (''mock'', VBool True)])"
  by (simp add: handle_offline_server_def request_payload_def subscript_def
        split: option.split)

lemma mock_set_temperature_24:
  "map_of (mock_responses other clk [(''temperature'', VInt 24)]) ''set_temperature'' =
     Some (VDict [(''success'', VBool True),
                  (''message'', VStr (''Temperature set to 24'' @ [CHR 0xB0] @ ''C'')),
                  (''current_temperature'', VInt 24),
                  (''mock'', VBool True)])"
  by (simp add: mock_responses_def dict_get_def str_int_24)

text \<open>
  C1. With at least one configured attempt and a backend whose every attempt fails
  with a connection error, \<open>execute_tool\<close> on \<open>set_temperature\<close> with parameters
  \<open>{temperature: 24}\<close> posts once per configured attempt and then returns the entry
  of the mock table: \<open>success: true\<close>, \<open>current_temperature: 24\<close>, \<open>mock: true\<close>
  (and the message of the entry), not an error.
\<close>

theorem unreachable_backend_mock:
  assumes "0 < max_retries"
    and "\<And>k u p. k < nat max_retries \<Longrightarrow> \<exists>m. post k u p = Raises (ConnectError m)"
  shows "execute_tool (ToolDispatcher_init env) max_retries post other clk
           ''set_temperature'' (VDict [(''temperature'', VInt 24)])
         = (VDict [(''success'', VBool True),
                   (''message'', VStr (''Temperature set to 24'' @ [CHR 0xB0] @ ''C'')),
                   (''current_temperature'', VInt 24),
                   (''mock'', VBool True)],
            replicate (nat max_retries)
              (''http://'' @ sim_actions_host env @ '':'' @ str_int (sim_actions_port env)
                 @ ''/tools/set_temperature''))"
proof -
  obtain r where r: "nat max_retries = Suc r"
    using assms(1) by (cases "nat max_retries") auto
  define url where "url = ''http://'' @ sim_actions_host env @ '':''
      @ str_int (sim_actions_port env) @ ''/tools/set_temperature''"
  define payload where
    "payload = request_payload clk ''set_temperature'' (VDict [(''temperature'', VInt 24)])"
  have connect: "\<exists>m. post k url (VDict payload) = Raises (ConnectError m)" if "k \<le> r" for k
    using that r assms(2) [of k url "VDict payload"] by simp
  have retry: "attempt_request post other clk url payload (0 + k) False = Next" if "k < r" for k
    using connect [of k] that by (auto simp: attempt_request_def on_exception_def)
  have final: "attempt_request post other clk url payload (0 + r) True
      = Done (handle_offline_server other clk payload)"
    using connect [of r] by (auto simp: attempt_request_def on_exception_def)
  have "request_loop post other clk url payload 0 (Suc r)
      = (handle_offline_server other clk payload, replicate (Suc r) url)"
    using retry final by (rule request_loop_retry)
  moreover have "handle_offline_server other clk payload
      = Inr (VDict [(''success'', VBool True),
                   (''message'', VStr (''Temperature set to 24'' @ [CHR 0xB0] @ ''C'')),
                   (''current_temperature'', VInt 24),
                   (''mock'', VBool True)])"
    unfolding payload_def by (simp only: offline_payload mock_set_temperature_24 option.case)
  moreover have "execute_tool (ToolDispatcher_init env) max_retries post other clk
           ''set_temperature'' (VDict [(''temperature'', VInt 24)])
       = (case request_loop post other clk url payload 0 (Suc r) of
            (Inr response, posted) \<Rightarrow> (response, posted)
          | (Inl e, posted) \<Rightarrow>
              (error_result ''set_temperature'' (VDict [(''temperature'', VInt 24)]) e, posted))"
    by (simp add: execute_tool_def make_http_request_def r tool_server_map_init
          ToolDispatcher_init_def subscript_server_def tool_url_def url_def payload_def)
  ultimately show ?thesis
    by (simp add: r url_def)
qed

theorem unreachable_backend_mock_witness:
  "(0::int) < 3
   \<and> execute_tool (ToolDispatcher_init default_settings) 3
        (\<lambda>k u p. Raises (ConnectError ''All connection attempts failed'')) type_name
        \<lparr>utc_iso = ''2025-01-01T00:00:00'', utc_stamp = ''1735689600.0'',
          sim_stamp = ''1735689600.0'', event_stamp = ''1735689600.0''\<rparr>
        ''set_temperature'' (VDict [(''temperature'', VInt 24)])
      = (VDict [(''success'', VBool True),
                (''message'', VStr (''Temperature set to 24'' @ [CHR 0xB0] @ ''C'')),
                (''current_temperature'', VInt 24),
                (''mock'', VBool True)],
         [''http://localhost:8001/tools/set_temperature'',
          ''http://localhost:8001/tools/set_temperature'',
          ''http://localhost:8001/tools/set_temperature''])"
  using unreachable_backend_mock [of 3
      "\<lambda>k u p. Raises (ConnectError ''All connection attempts failed'')" default_settings
      type_name
      "\<lparr>utc_iso = ''2025-01-01T00:00:00'', utc_stamp = ''1735689600.0'',
          sim_stamp = ''1735689600.0'', event_stamp = ''1735689600.0''\<rparr>"]
  by (simp add: default_settings_def str_int_8001 numeral_3_eq_3)

text \<open>
  C5. For a tool name that the tool-to-server map does not hold, and any parameters,
  \<open>execute_tool\<close> returns the error result with \<open>success: false\<close> and the
  "not found" message, and posts no request.
\<close>

theorem unknown_tool_not_found:
  assumes "tool_server_map self tool_name = None"
  shows "execute_tool self max_retries post other clk tool_name parameters
         = (VDict [(''success'', VBool False),
                   (''error'', VStr (''Tool '' @ quoted tool_name
                                     @ '' not found in any MCP server'')),
                   (''tool'', VStr tool_name),
                   (''parameters'', parameters)],
            [])"
  using assms by (simp add: execute_tool_def error_result_def)

theorem unknown_tool_not_found_witness:
  "tool_server_map (ToolDispatcher_init default_settings) ''nonexistent_tool'' = None
   \<and> execute_tool (ToolDispatcher_init default_settings) 3
        (\<lambda>k u p. Returns \<lparr>status_code = 200, json = Inr (VDict []), status_error = []\<rparr>)
        type_name
        \<lparr>utc_iso = ''2025-01-01T00:00:00'', utc_stamp = ''1735689600.0'',
          sim_stamp = ''1735689600.0'', event_stamp = ''1735689600.0''\<rparr>
        ''nonexistent_tool'' (VDict [])
      = (VDict [(''success'', VBool False),
                (''error'', VStr (''Tool '' @ [CHR 0x27] @ ''nonexistent_tool'' @ [CHR 0x27]
                                  @ '' not found in any MCP server'')),
                (''tool'', VStr ''nonexistent_tool''),
                (''parameters'', VDict [])],
         [])"
proof -
  have h: "tool_server_map (ToolDispatcher_init default_settings) ''nonexistent_tool'' = None"
    by (simp add: tool_server_map_init)
  show ?thesis
    using h unknown_tool_not_found [OF h, of 3
      "\<lambda>k u p. Returns \<lparr>status_code = 200, json = Inr (VDict []), status_error = []\<rparr>"
      type_name
      "\<lparr>utc_iso = ''2025-01-01T00:00:00'', utc_stamp = ''1735689600.0'',
          sim_stamp = ''1735689600.0'', event_stamp = ''1735689600.0''\<rparr>" "VDict []"]
    by (simp add: quoted_def)
qed










section \<open>Properties of the intent router\<close>

lemma score_intents_no_match:
  assumes "\<forall>(intent, patterns) \<in> set table. \<forall>p \<in> set patterns. re_search p s = None"
  shows "score_intents table s = Inr []"
  using assms
proof (induction table)
  case Nil
  then show ?case by simp
next
  case (Cons entry table)
  obtain intent patterns where entry: "entry = (intent, patterns)"
    by (cases entry)
  have "\<forall>p \<in> set patterns. re_search p s = None"
    using Cons.prems entry by simp
  then have "filter (\<lambda>pattern. re_search pattern s \<noteq> None) patterns = []"
    by (simp add: filter_empty_conv)
  moreover have "score_intents table s = Inr []"
    using Cons by simp
  ultimately show ?case
    by (simp add: entry)
qed

lemma score_intents_total: "\<exists>scores. score_intents table s = Inr scores"
proof (induction table)
  case Nil
  show ?case by simp
next
  case (Cons entry table)
  obtain intent patterns where entry: "entry = (intent, patterns)"
    by (cases entry)
  from Cons obtain scores where scores: "score_intents table s = Inr scores"
    by blast
  let ?m = "length (filter (\<lambda>pattern. re_search pattern s \<noteq> None) patterns)"
  show ?case
  proof (cases "0 < ?m")
    case True
    have "?m \<le> length patterns"
      by (rule length_filter_le)
    with True have "length patterns \<noteq> 0"
      by linarith
    then show ?thesis
      using True scores by (simp add: entry truediv_def)
  next
    case False
    then show ?thesis
      using scores by (simp add: entry)
  qed
qed

lemma fold_best_key:
  "fst (fold (\<lambda>(k', v') (bk, bv). if bv < v' then (k', v') else (bk, bv)) rest (k, v))
     \<in> insert k (fst ` set rest)"
proof (induction rest arbitrary: k v)
  case Nil
  show ?case by simp
next
  case (Cons e rest)
  obtain k' v' where e: "e = (k', v')"
    by (cases e)
  show ?case
    using Cons [of k' v'] Cons [of k v] by (auto simp: e)
qed

lemma max_key_in_keys:
  assumes "scores \<noteq> []"
  shows "\<exists>best. max_key scores = Inr best \<and> best \<in> fst ` set scores"
proof -
  obtain k v rest where "scores = (k, v) # rest"
    using assms by (cases scores) auto
  then show ?thesis
    using fold_best_key [of rest k v] by auto
qed

lemma classify_intent_total: "\<exists>r. classify_intent user_input = Inr r"
proof -
  obtain scores where scores: "score_intents intent_patterns (lower user_input) = Inr scores"
    using score_intents_total by blast
  show ?thesis
  proof (cases "scores = []")
    case True
    then show ?thesis
      using scores by (simp add: classify_intent_def)
  next
    case False
    then obtain best where best: "max_key scores = Inr best" "best \<in> fst ` set scores"
      using max_key_in_keys by blast
    then obtain c where "map_of scores best = Some c"
      by (metis domD domI dom_map_of_conv_image_fst)
    then show ?thesis
      using scores False best by (simp add: classify_intent_def)
  qed
qed

text \<open>
  C4. When no pattern of any intent is found in the lower-cased input, classification
  returns the intent \<open>conversation\<close> with confidence 0.1 (with the conversation tools
  and the action \<open>general_conversation\<close>); and for every input classification
  returns a result: neither the division nor \<open>max\<close> nor the lookup of the best score
  raises.
\<close>

theorem unmatched_input_conversation:
  "((\<forall>(intent, patterns) \<in> set intent_patterns. \<forall>p \<in> set patterns.
        re_search p (lower user_input) = None) \<longrightarrow>
      classify_intent user_input =
        Inr \<lparr> intent_type = CONVERSATION,
              confidence = 1 / 10,
              suggested_tools = [''talk'', ''remember'', ''ask_confirm'', ''summarize''],
              extracted_parameters = [],
              predicted_action = ''general_conversation'' \<rparr>)
   \<and> (\<exists>r. classify_intent user_input = Inr r)"
proof (intro conjI impI)
  assume "\<forall>(intent, patterns) \<in> set intent_patterns. \<forall>p \<in> set patterns.
        re_search p (lower user_input) = None"
  then have "score_intents intent_patterns (lower user_input) = Inr []"
    by (rule score_intents_no_match)
  then show "classify_intent user_input =
        Inr \<lparr> intent_type = CONVERSATION,
              confidence = 1 / 10,
              suggested_tools = [''talk'', ''remember'', ''ask_confirm'', ''summarize''],
              extracted_parameters = [],
              predicted_action = ''general_conversation'' \<rparr>"
    by (simp add: classify_intent_def intent_tool_mapping_def predict_action_def)
next
  show "\<exists>r. classify_intent user_input = Inr r"
    by (rule classify_intent_total)
qed

text \<open>
  The temperature pattern finds a match exactly in the texts that hold a number followed
  by \<open>degree(s)\<close> or a degree mark.
\<close>

lemma re_search_iff:
  "re_search r s \<noteq> None \<longleftrightarrow> (\<exists>a t. s = a @ t \<and> rx r (t, None) \<noteq> [])"
proof (induction s)
  case Nil
  show ?case by (auto split: list.splits)
next
  case (Cons x s)
  show ?case
  proof (cases "rx r (x # s, None)")
    case Nil
    have "(\<exists>a t. x # s = a @ t \<and> rx r (t, None) \<noteq> [])
        \<longleftrightarrow> (\<exists>a t. s = a @ t \<and> rx r (t, None) \<noteq> [])"
    proof
      assume "\<exists>a t. x # s = a @ t \<and> rx r (t, None) \<noteq> []"
      then obtain a t where at: "x # s = a @ t" "rx r (t, None) \<noteq> []" by blast
      with Nil have "a \<noteq> []" by auto
      then obtain a' where "a = x # a'" using at(1) by (cases a) auto
      with at show "\<exists>a t. s = a @ t \<and> rx r (t, None) \<noteq> []" by auto
    next
      assume "\<exists>a t. s = a @ t \<and> rx r (t, None) \<noteq> []"
      then obtain a t where "s = a @ t" "rx r (t, None) \<noteq> []" by blast
      then have "x # s = (x # a) @ t \<and> rx r (t, None) \<noteq> []" by simp
      then show "\<exists>a t. x # s = a @ t \<and> rx r (t, None) \<noteq> []" by blast
    qed
    then show ?thesis using Nil Cons.IH by simp
  next
    case (Cons st sts)
    then have "x # s = [] @ (x # s) \<and> rx r (x # s, None) \<noteq> []" by simp
    then have "\<exists>a t. x # s = a @ t \<and> rx r (t, None) \<noteq> []" by blast
    then show ?thesis using Cons by (auto split: prod.splits)
  qed
qed

lemma le_run_length_iff:
  "i \<le> run_length k t \<longleftrightarrow> (\<exists>p q. t = p @ q \<and> length p = i \<and> list_all (in_class k) p)"
proof
  assume le: "i \<le> run_length k t"
  have t: "t = takeWhile (in_class k) t @ dropWhile (in_class k) t" by simp
  let ?p = "take i (takeWhile (in_class k) t)"
  have "t = ?p @ (drop i (takeWhile (in_class k) t) @ dropWhile (in_class k) t)"
    by (metis append_assoc append_take_drop_id takeWhile_dropWhile_id)
  moreover have "length ?p = i"
    using le by (simp add: run_length_def)
  moreover have "list_all (in_class k) ?p"
    by (auto simp: list_all_iff dest!: in_set_takeD set_takeWhileD)
  ultimately show "\<exists>p q. t = p @ q \<and> length p = i \<and> list_all (in_class k) p"
    by blast
next
  assume "\<exists>p q. t = p @ q \<and> length p = i \<and> list_all (in_class k) p"
  then obtain p q where pq: "t = p @ q" "length p = i" "list_all (in_class k) p" by blast
  then have "takeWhile (in_class k) t = p @ takeWhile (in_class k) q"
    by (simp add: list_all_iff takeWhile_append2)
  then show "i \<le> run_length k t"
    using pq(2) by (simp add: run_length_def)
qed

lemma rx_unit_nonempty:
  "rx (Alt (Seq (Lit ''degree'') (Opt (Lit ''s''))) (Lit [CHR 0xB0])) (v, g) \<noteq> []
     \<longleftrightarrow> startswith v ''degree'' \<or> startswith v [CHR 0xB0]"
  by simp

lemma rx_temperature_nonempty:
  "rx temperature_pattern (t, None) \<noteq> [] \<longleftrightarrow>
     (\<exists>i j. 1 \<le> i \<and> i \<le> run_length Digit t \<and> j \<le> run_length Whitespace (drop i t)
        \<and> (startswith (drop (i + j) t) ''degree'' \<or> startswith (drop (i + j) t) [CHR 0xB0]))"
proof -
  have "rx temperature_pattern (t, None) \<noteq> [] \<longleftrightarrow>
      (\<exists>i \<in> {1..<Suc (run_length Digit t)}. \<exists>j \<in> {0..<Suc (run_length Whitespace (drop i t))}.
         rx (Alt (Seq (Lit ''degree'') (Opt (Lit ''s''))) (Lit [CHR 0xB0]))
            (drop j (drop i t), Some (take (length t - length (drop i t)) t)) \<noteq> [])"
    unfolding temperature_pattern_def
    by (simp only: seqs.simps rx.simps concat_eq_Nil_conv set_map set_rev set_upt
          ball_simps bex_simps image_iff Bex_def split_beta fst_conv snd_conv
          not_all not_not)
  then show ?thesis
    unfolding rx_unit_nonempty
    by (simp add: Bex_def less_Suc_eq_le add.commute)
qed


lemma temperature_search_iff:
  "re_search temperature_pattern s \<noteq> None \<longleftrightarrow> number_before_degree s"
proof
  assume "re_search temperature_pattern s \<noteq> None"
  then obtain a t where at: "s = a @ t" "rx temperature_pattern (t, None) \<noteq> []"
    unfolding re_search_iff by blast
  then obtain i j where ij: "1 \<le> i" "i \<le> run_length Digit t"
      "j \<le> run_length Whitespace (drop i t)"
      "startswith (drop (i + j) t) ''degree'' \<or> startswith (drop (i + j) t) [CHR 0xB0]"
    unfolding rx_temperature_nonempty by blast
  from ij(2) obtain p q where pq: "t = p @ q" "length p = i" "list_all (in_class Digit) p"
    unfolding le_run_length_iff by blast
  from ij(3) pq obtain w b where wb: "q = w @ b" "length w = j" "list_all (in_class Whitespace) w"
    unfolding le_run_length_iff by auto
  from ij(1) pq(2) obtain p' d where p: "p = p' @ [d]"
    by (cases p rule: rev_cases) auto
  have "s = (a @ p') @ d # w @ b"
    using at(1) pq(1) wb(1) p by simp
  moreover have "is_digit d"
    using pq(3) p by simp
  moreover have "list_all is_space w"
    using wb(3) by (simp add: list_all_iff)
  moreover have "startswith b ''degree'' \<or> startswith b [CHR 0xB0]"
    using ij(4) pq wb by simp
  ultimately show "number_before_degree s"
    unfolding number_before_degree_def by blast
next
  assume "number_before_degree s"
  then obtain a d w b where s: "s = a @ d # w @ b" "is_digit d" "list_all is_space w"
      "startswith b ''degree'' \<or> startswith b [CHR 0xB0]"
    unfolding number_before_degree_def by blast
  let ?t = "d # w @ b"
  have "1 \<le> run_length Digit ?t"
    unfolding le_run_length_iff using s(2) by (intro exI [of _ "[d]"] exI [of _ "w @ b"]) simp
  moreover have "length w \<le> run_length Whitespace (drop 1 ?t)"
    unfolding le_run_length_iff using s(3)
    by (intro exI [of _ w] exI [of _ b]) (simp add: list_all_iff)
  moreover have "startswith (drop (1 + length w) ?t) ''degree''
      \<or> startswith (drop (1 + length w) ?t) [CHR 0xB0]"
    using s(4) by simp
  ultimately have "rx temperature_pattern (?t, None) \<noteq> []"
    unfolding rx_temperature_nonempty by blast
  then show "re_search temperature_pattern s \<noteq> None"
    unfolding re_search_iff using s(1) by blast
qed

text \<open>
  C2. For every input whose lower-cased form contains \<open>cold\<close> or \<open>cool\<close> and holds
  no number followed (after white space or none) by \<open>degree\<close>, \<open>degrees\<close> or a degree
  mark, the parameter extractor with intent \<open>temperature_control\<close> returns exactly
  \<open>{direction: "decrease"}\<close>, and the action predictor on the same input and intent
  returns \<open>increase_temperature\<close>.
\<close>

theorem cold_extractor_predictor_disagree:
  assumes "contains (lower user_input) ''cold'' \<or> contains (lower user_input) ''cool''"
    and "\<not> number_before_degree (lower user_input)"
  shows "extract_parameters user_input TEMPERATURE_CONTROL = [(''direction'', VStr ''decrease'')]
       \<and> predict_action user_input TEMPERATURE_CONTROL = ''increase_temperature''"
proof -
  have "re_search temperature_pattern (lower user_input) = None"
    using assms(2) temperature_search_iff by blast
  then show ?thesis
    using assms(1) by (auto simp: extract_parameters_def predict_action_def any_in_def)
qed

lemma lower_xyzzy: "lower ''Xyzzy 42'' = ''xyzzy 42''"
  by (simp add: lower_def lower_char_def is_upper_def)

lemma no_pattern_xyzzy:
  "\<forall>(intent, patterns) \<in> set intent_patterns. \<forall>p \<in> set patterns.
      re_search p ''xyzzy 42'' = None"
  by (simp add: intent_patterns_def run_length_def)

theorem unmatched_input_conversation_witness:
  "list_all (\<lambda>(intent, patterns). list_all (\<lambda>p. re_search p (lower ''Xyzzy 42'') = None)
      patterns) intent_patterns
   \<and> classify_intent ''Xyzzy 42'' =
        Inr \<lparr> intent_type = CONVERSATION,
              confidence = 1 / 10,
              suggested_tools = [''talk'', ''remember'', ''ask_confirm'', ''summarize''],
              extracted_parameters = [],
              predicted_action = ''general_conversation'' \<rparr>"
proof -
  have h: "\<forall>(intent, patterns) \<in> set intent_patterns. \<forall>p \<in> set patterns.
        re_search p (lower ''Xyzzy 42'') = None"
    using no_pattern_xyzzy by (simp only: lower_xyzzy)
  then have "list_all (\<lambda>(intent, patterns).
      list_all (\<lambda>p. re_search p (lower ''Xyzzy 42'') = None) patterns) intent_patterns"
    by (simp add: list_all_iff case_prod_beta)
  then show ?thesis
    using h unmatched_input_conversation [of "''Xyzzy 42''"] by blast
qed

lemma lower_cold: "lower ''I am COLD'' = ''i am cold''"
  by (simp add: lower_def lower_char_def is_upper_def)

theorem cold_extractor_predictor_disagree_witness:
  "(contains (lower ''I am COLD'') ''cold'' \<or> contains (lower ''I am COLD'') ''cool'')
   \<and> \<not> number_before_degree (lower ''I am COLD'')
   \<and> extract_parameters ''I am COLD'' TEMPERATURE_CONTROL = [(''direction'', VStr ''decrease'')]
   \<and> predict_action ''I am COLD'' TEMPERATURE_CONTROL = ''increase_temperature''"
proof -
  have a: "contains (lower ''I am COLD'') ''cold'' \<or> contains (lower ''I am COLD'') ''cool''"
    by (simp add: lower_cold)
  have "re_search temperature_pattern (lower ''I am COLD'') = None"
    by (simp add: lower_cold temperature_pattern_def run_length_def is_digit_def)
  then have b: "\<not> number_before_degree (lower ''I am COLD'')"
    using temperature_search_iff by blast
  show ?thesis
    using a b cold_extractor_predictor_disagree [OF a b] by simp
qed

lemma lower_close: "lower ''close the window'' = ''close the window''"
  by (simp add: lower_def lower_char_def is_upper_def)

lemma extract_close:
  "extract_parameters ''close the window'' WINDOW_CONTROL
     = [(''side'', VStr ''both''), (''action'', VStr ''close'')]"
  by (simp add: extract_parameters_def lower_close any_in_def)

text \<open>
  C9. The windows fields do not stay within \<open>open\<close>, \<open>closed\<close>, \<open>partial\<close>:
  \<open>open_window\<close> stores the action of the arguments as it is. For the input
  "close the window" the extractor produces the action \<open>close\<close>, and applying an
  \<open>open_window\<close> result with these arguments to the default state leaves
  \<open>windows_left\<close> at \<open>close\<close>, which is none of the three values.
\<close>

theorem close_window_breaks_enum:
  "windows_left (fst (update_state_from_tool conv EnvironmentState_default
       (VStr ''open_window'')
       (VDict (extract_parameters ''close the window'' WINDOW_CONTROL)) (VDict [])))
     = VStr ''close''
   \<and> \<not> window_value (windows_left (fst (update_state_from_tool conv
       EnvironmentState_default (VStr ''open_window'')
       (VDict (extract_parameters ''close the window'' WINDOW_CONTROL)) (VDict []))))"
  by (simp add: extract_close update_state_from_tool_def py_get_def dict_get_def
        window_value_def)

end
